theory Spec2Isabelle
  imports Main "HOL-Library.Word"
begin

unbundle bit_operations_syntax

section \<open>Go values\<close>

text \<open>
  A Go \<open>string\<close> and a \<open>[]byte\<close> are sequences of bytes; \<^typ>\<open>char\<close> is a byte, so both
  are \<^typ>\<open>string\<close> here and the conversions \<open>[]byte(s)\<close> and \<open>string(b)\<close> are the identity.
  A Go \<open>error\<close> is modelled by its message, the text \<open>err.Error()\<close> returns; a function
  that returns \<open>(v, err)\<close> returns a sum, \<open>Inl\<close> the error.
\<close>

type_synonym error = string
type_synonym bytes = string

text \<open>
  \<open>quote s\<close> is \<open>s\<close> between double quotes: the form \<open>%q\<close> gives a text in which it has
  nothing to escape (no double quote, backslash, control byte or byte outside ASCII).
\<close>

definition quote :: "string \<Rightarrow> string" where
  "quote s = [CHR 0x22] @ s @ [CHR 0x22]"

definition sq :: "string \<Rightarrow> string" where
  "sq s = [CHR 0x27] @ s @ [CHR 0x27]"

text \<open>\<open>strconv.Itoa\<close>: the decimal text of an integer.\<close>

function digits :: "nat \<Rightarrow> string" where
  "digits n =
     (if n < 10 then [''0123456789'' ! n] else digits (n div 10) @ [''0123456789'' ! (n mod 10)])"
  by pat_completeness auto
termination
  by (relation "measure (\<lambda>n. n)") auto

declare digits.simps [simp del]

definition Itoa :: "int \<Rightarrow> string" where
  "Itoa i = (if i < 0 then CHR ''-'' # digits (nat (- i)) else digits (nat i))"

section \<open>Library functions\<close>

subsection \<open>Functions taken as parameters\<close>

text \<open>
  Two library functions decide what the code does and are not part of the repository:
  \<open>url.Parse\<close> of \<open>net/url\<close> (the code reads the field \<open>Scheme\<close> and the method
  \<open>Hostname()\<close> of its result) and \<open>grobotstxt.AgentAllowed\<close>, the evaluator of robots
  directives. They are parameters of the model: every theorem that quantifies over
  \<open>L\<close> holds for any parser and any evaluator.
\<close>

record URL =
  Scheme :: string
  Hostname :: string

record lib =
  url_Parse :: "string \<Rightarrow> error + URL"
  AgentAllowed :: "string \<Rightarrow> string \<Rightarrow> string \<Rightarrow> bool"

subsection \<open>A parser for plain URLs\<close>

text \<open>
  Concrete inputs need a concrete parser. \<open>plain_Parse\<close> is \<open>url.Parse\<close> followed by
  the reading of \<open>Scheme\<close> and \<open>Hostname()\<close>, on the URLs written with letters, digits
  and the characters \<open>- . _ ~ / : ? # = &\<close> only, with at most one colon in the
  authority: \<open>getScheme\<close>, the lower-casing of the scheme (and of nothing else), the
  cut at \<open>#\<close> and at \<open>?\<close>, the opaque and the relative cases, the authority up to the
  next slash, and the port check are those of \<open>net/url\<close>. Any other input is outside
  this parser, which answers it with an error of its own. It is used at concrete URLs
  only; no theorem about every parser depends on it.
\<close>

definition is_letter :: "char \<Rightarrow> bool" where
  "is_letter c = (c \<in> set ''abcdefghijklmnopqrstuvwxyzABCDEFGHIJKLMNOPQRSTUVWXYZ'')"

definition is_digit :: "char \<Rightarrow> bool" where
  "is_digit c = (c \<in> set ''0123456789'')"

definition plain :: "char \<Rightarrow> bool" where
  "plain c = (is_letter c \<or> is_digit c \<or> c \<in> set ''-._~/:?#=&'')"

text \<open>\<open>strings.ToLower\<close> on ASCII text.\<close>

definition ToLower :: "string \<Rightarrow> string" where
  "ToLower s =
     map (\<lambda>c. if c \<in> set ''ABCDEFGHIJKLMNOPQRSTUVWXYZ'' then char_of (of_char c + (32::nat)) else c) s"

text \<open>\<open>getScheme rawURL pre cs\<close>: the scan of \<open>net/url\<close>, \<open>pre\<close> the bytes read so far.\<close>

fun getScheme :: "string \<Rightarrow> string \<Rightarrow> string \<Rightarrow> error + string \<times> string" where
  "getScheme rawURL pre [] = Inr ([], rawURL)"
| "getScheme rawURL pre (c # cs) =
     (if is_letter c then getScheme rawURL (pre @ [c]) cs
      else if is_digit c \<or> c \<in> set ''+-.''
        then (if pre = [] then Inr ([], rawURL) else getScheme rawURL (pre @ [c]) cs)
      else if c = CHR '':''
        then (if pre = [] then Inl ''missing protocol scheme'' else Inr (pre, cs))
      else Inr ([], rawURL))"

definition validOptionalPort :: "string \<Rightarrow> bool" where
  "validOptionalPort port =
     (case port of [] \<Rightarrow> True | c # ds \<Rightarrow> c = CHR '':'' \<and> list_all is_digit ds)"

text \<open>
  The text of a \<open>*url.Error\<close>: the operation, the quoted URL and the cause, as in
  \<open>parse ":x": missing protocol scheme\<close>.
\<close>

definition url_Error :: "string \<Rightarrow> string \<Rightarrow> error \<Rightarrow> error" where
  "url_Error op u err = op @ '' '' @ quote u @ '': '' @ err"

definition plain_Parse :: "string \<Rightarrow> error + URL" where
  "plain_Parse rawURL =
     (if \<not> list_all plain rawURL then Inl ''not a plain URL''
      else
        let u = takeWhile (\<lambda>c. c \<noteq> CHR ''#'') rawURL
        in case getScheme u [] u of
             Inl msg \<Rightarrow> Inl (url_Error ''parse'' u msg)
           | Inr (scheme, rest0) \<Rightarrow>
               (let scheme' = ToLower scheme;
                    rest = takeWhile (\<lambda>c. c \<noteq> CHR ''?'') rest0
                in if take 1 rest \<noteq> ''/'' \<and> scheme' \<noteq> []
                     then Inr \<lparr>Scheme = scheme', Hostname = []\<rparr>
                   else if take 1 rest \<noteq> ''/'' \<and> CHR '':'' \<in> set (takeWhile (\<lambda>c. c \<noteq> CHR ''/'') rest)
                     then Inl (url_Error ''parse'' u ''first path segment in URL cannot contain colon'')
                   else if (scheme' \<noteq> [] \<or> take 3 rest \<noteq> ''///'') \<and> take 2 rest = ''//''
                     then
                       (let authority = takeWhile (\<lambda>c. c \<noteq> CHR ''/'') (drop 2 rest);
                            colonPort = dropWhile (\<lambda>c. c \<noteq> CHR '':'') authority
                        in if 1 < length (filter (\<lambda>c. c = CHR '':'') authority) then Inl ''not a plain URL''
                           else if \<not> validOptionalPort colonPort
                             then Inl (url_Error ''parse'' u (''invalid port '' @ quote colonPort @ '' after host''))
                           else Inr \<lparr>Scheme = scheme', Hostname = takeWhile (\<lambda>c. c \<noteq> CHR '':'') authority\<rparr>)
                   else Inr \<lparr>Scheme = scheme', Hostname = []\<rparr>))"

text \<open>
  An evaluator for concrete inputs: it allows every agent everywhere. The theorems hold
  for every evaluator; a closed instance needs one, and the instances below evaluate
  directives that allow the URL asked for.
\<close>

definition allow_all :: "string \<Rightarrow> string \<Rightarrow> string \<Rightarrow> bool" where
  "allow_all robotsTxt userAgent url = True"

definition plain_lib :: lib where
  "plain_lib = \<lparr>url_Parse = plain_Parse, AgentAllowed = allow_all\<rparr>"

subsection \<open>SHA-256 and hexadecimal encoding\<close>

text \<open>
  \<open>crypto/sha256\<close> computes the SHA-256 digest of FIPS 180-4 on 32-bit words:
  \<open>hash.Write(m); hash.Sum(nil)\<close> is the digest of \<open>m\<close>, 32 bytes.
\<close>

type_synonym u32 = "32 word"

definition rotr :: "nat \<Rightarrow> u32 \<Rightarrow> u32" where
  "rotr n x = (drop_bit n x) OR (push_bit (32 - n) x)"

definition Ch :: "u32 \<Rightarrow> u32 \<Rightarrow> u32 \<Rightarrow> u32" where
  "Ch x y z = (x AND y) XOR (NOT x AND z)"

definition Maj :: "u32 \<Rightarrow> u32 \<Rightarrow> u32 \<Rightarrow> u32" where
  "Maj x y z = (x AND y) XOR (x AND z) XOR (y AND z)"

definition bsig0 :: "u32 \<Rightarrow> u32" where
  "bsig0 x = rotr 2 x XOR rotr 13 x XOR rotr 22 x"

definition bsig1 :: "u32 \<Rightarrow> u32" where
  "bsig1 x = rotr 6 x XOR rotr 11 x XOR rotr 25 x"

definition ssig0 :: "u32 \<Rightarrow> u32" where
  "ssig0 x = rotr 7 x XOR rotr 18 x XOR drop_bit 3 x"

definition ssig1 :: "u32 \<Rightarrow> u32" where
  "ssig1 x = rotr 17 x XOR rotr 19 x XOR drop_bit 10 x"

definition K256 :: "u32 list" where
  "K256 =
   [1116352408, 1899447441, 3049323471, 3921009573, 961987163, 1508970993, 2453635748, 2870763221,
    3624381080, 310598401, 607225278, 1426881987, 1925078388, 2162078206, 2614888103, 3248222580,
    3835390401, 4022224774, 264347078, 604807628, 770255983, 1249150122, 1555081692, 1996064986,
    2554220882, 2821834349, 2952996808, 3210313671, 3336571891, 3584528711, 113926993, 338241895,
    666307205, 773529912, 1294757372, 1396182291, 1695183700, 1986661051, 2177026350, 2456956037,
    2730485921, 2820302411, 3259730800, 3345764771, 3516065817, 3600352804, 4094571909, 275423344,
    430227734, 506948616, 659060556, 883997877, 958139571, 1322822218, 1537002063, 1747873779,
    1955562222, 2024104815, 2227730452, 2361852424, 2428436474, 2756734187, 3204031479, 3329325298]"

type_synonym digest = "u32 \<times> u32 \<times> u32 \<times> u32 \<times> u32 \<times> u32 \<times> u32 \<times> u32"

definition init256 :: digest where
  "init256 =
     (1779033703, 3144134277, 1013904242, 2773480762, 1359893119, 2600822924, 528734635, 1541459225)"

fun round256 :: "digest \<Rightarrow> u32 \<times> u32 \<Rightarrow> digest" where
  "round256 (a, b, c, d, e, f, g, h) (k, w) =
     (let t1 = h + bsig1 e + Ch e f g + k + w;
          t2 = bsig0 a + Maj a b c
      in (t1 + t2, a, b, c, d + t1, e, f, g))"

text \<open>The message schedule: 48 words appended to the 16 words of the block.\<close>

fun schedule :: "nat \<Rightarrow> u32 list \<Rightarrow> u32 list" where
  "schedule 0 w = w"
| "schedule (Suc n) w =
     (let t = length w
      in schedule n (w @ [ssig1 (w ! (t - 2)) + w ! (t - 7) + ssig0 (w ! (t - 15)) + w ! (t - 16)]))"

fun be32 :: "bytes \<Rightarrow> u32 list" where
  "be32 (a # b # c # d # rest) =
     (push_bit 24 (of_char a) OR push_bit 16 (of_char b) OR push_bit 8 (of_char c) OR of_char d)
       # be32 rest"
| "be32 _ = []"

fun add256 :: "digest \<Rightarrow> digest \<Rightarrow> digest" where
  "add256 (a, b, c, d, e, f, g, h) (a', b', c', d', e', f', g', h') =
     (a + a', b + b', c + c', d + d', e + e', f + f', g + g', h + h')"

definition block256 :: "digest \<Rightarrow> bytes \<Rightarrow> digest" where
  "block256 h p = add256 h (foldl round256 h (zip K256 (schedule 48 (be32 p))))"

function blocks256 :: "digest \<Rightarrow> bytes \<Rightarrow> digest" where
  "blocks256 h p =
     (if length p < 64 then h else blocks256 (block256 h (take 64 p)) (drop 64 p))"
  by pat_completeness auto
termination
  by (relation "measure (\<lambda>(h, p). length p)") auto

declare blocks256.simps [simp del]

definition byte_of :: "'a::len word \<Rightarrow> char" where
  "byte_of x = Char (bit x 0) (bit x 1) (bit x 2) (bit x 3) (bit x 4) (bit x 5) (bit x 6) (bit x 7)"

definition be_bytes32 :: "u32 \<Rightarrow> bytes" where
  "be_bytes32 x = [byte_of (drop_bit 24 x), byte_of (drop_bit 16 x), byte_of (drop_bit 8 x), byte_of x]"

definition be_bytes64 :: "64 word \<Rightarrow> bytes" where
  "be_bytes64 x =
     [byte_of (drop_bit 56 x), byte_of (drop_bit 48 x), byte_of (drop_bit 40 x), byte_of (drop_bit 32 x),
      byte_of (drop_bit 24 x), byte_of (drop_bit 16 x), byte_of (drop_bit 8 x), byte_of x]"

text \<open>Padding: the byte 0x80, zero bytes up to 56 modulo 64, the bit length in 64 bits.\<close>

definition pad256 :: "bytes \<Rightarrow> bytes" where
  "pad256 m =
     m @ [CHR 0x80] @ replicate ((119 - length m mod 64) mod 64) (CHR 0x00)
       @ be_bytes64 (word_of_nat (8 * length m))"

fun digest_bytes :: "digest \<Rightarrow> bytes" where
  "digest_bytes (a, b, c, d, e, f, g, h) = concat (map be_bytes32 [a, b, c, d, e, f, g, h])"

definition sha256_Sum :: "bytes \<Rightarrow> bytes" where
  "sha256_Sum m = digest_bytes (blocks256 init256 (pad256 m))"

definition hexdigit :: "nat \<Rightarrow> char" where
  "hexdigit n = ''0123456789abcdef'' ! (n mod 16)"

definition hex_EncodeToString :: "bytes \<Rightarrow> string" where
  "hex_EncodeToString bs =
     concat (map (\<lambda>c. [hexdigit (of_char c div 16), hexdigit (of_char c)]) bs)"

subsection \<open>JSON encoding of a byte slice\<close>

text \<open>
  \<open>json.Marshal\<close> of a value whose dynamic type is \<open>[]byte\<close> writes a JSON string:
  the bytes in base64 (the standard alphabet, padded with \<open>=\<close>) between double quotes.
  It never fails on a byte slice. (A nil slice is written \<open>null\<close>; the slices of the
  model are the non-nil ones, what \<open>io.ReadAll\<close> returns.)
\<close>

definition b64 :: "nat \<Rightarrow> char" where
  "b64 n = ''ABCDEFGHIJKLMNOPQRSTUVWXYZabcdefghijklmnopqrstuvwxyz0123456789+/'' ! (n mod 64)"

fun base64_EncodeToString :: "bytes \<Rightarrow> string" where
  "base64_EncodeToString (a # b # c # rest) =
     (let x = of_char a; y = of_char b; z = of_char c
      in [b64 (x div 4), b64 ((x mod 4) * 16 + y div 16), b64 ((y mod 16) * 4 + z div 64), b64 z]
           @ base64_EncodeToString rest)"
| "base64_EncodeToString [a, b] =
     (let x = of_char a; y = of_char b
      in [b64 (x div 4), b64 ((x mod 4) * 16 + y div 16), b64 ((y mod 16) * 4), CHR ''=''])"
| "base64_EncodeToString [a] =
     (let x = of_char a in [b64 (x div 4), b64 ((x mod 4) * 16), CHR ''='', CHR ''=''])"
| "base64_EncodeToString [] = []"

definition json_Marshal :: "bytes \<Rightarrow> error + bytes" where
  "json_Marshal v = Inr (quote (base64_EncodeToString v))"

section \<open>Package util\<close>

definition GetDomain :: "lib \<Rightarrow> string \<Rightarrow> error + string" where
  "GetDomain L url =
     (case url_Parse L url of
        Inl err \<Rightarrow> Inl err
      | Inr parsedUrl \<Rightarrow>
          if Hostname parsedUrl = [] then Inl ''invalid url. Url should contain scheme and hostname''
          else Inr (Hostname parsedUrl))"

definition GetBaseUrl :: "lib \<Rightarrow> string \<Rightarrow> error + string" where
  "GetBaseUrl L url =
     (case url_Parse L url of
        Inl err \<Rightarrow> Inl err
      | Inr parsedUrl \<Rightarrow>
          if Scheme parsedUrl = [] \<or> Hostname parsedUrl = []
          then Inl ''invalid url. Url should contain scheme and hostname''
          else Inr (Scheme parsedUrl @ ''://'' @ Hostname parsedUrl))"

section \<open>Package cache: the memcached client\<close>

subsection \<open>The provider\<close>

text \<open>
  The memcached provider behind \<open>memcache.Client\<close>: the items it holds, the operations
  it has been sent (\<open>mc_ops\<close>, in order), and \<open>mc_fault\<close>, the error with which it answers
  an operation if it does (unreachable server, timeout, item too large). The client
  library refuses a key that is not legal (longer than 250 bytes, or with a blank, a
  control byte or DEL) before it sends anything. Expiry and eviction
  are not modelled: an item stays until it is overwritten, which is the provider within
  the TTL.
\<close>

record Item =
  Key :: string
  Value :: bytes
  Expiration :: int

datatype mc_error = ErrCacheMiss | ErrMalformedKey | ErrOther error

datatype mc_op = OpGet string | OpSet Item

record memcache =
  items :: "string \<rightharpoonup> Item"
  mc_fault :: "mc_op \<Rightarrow> mc_error option"
  mc_ops :: "mc_op list"

definition legal_byte :: "char \<Rightarrow> bool" where
  "legal_byte c = ((32::nat) < of_char c \<and> of_char c \<noteq> (127::nat))"

definition legalKey :: "string \<Rightarrow> bool" where
  "legalKey key = (length key \<le> 250 \<and> list_all legal_byte key)"

definition client_Get :: "memcache \<Rightarrow> string \<Rightarrow> memcache \<times> (mc_error + Item)" where
  "client_Get m key =
     (if \<not> legalKey key then (m, Inl ErrMalformedKey)
      else let m' = m\<lparr>mc_ops := mc_ops m @ [OpGet key]\<rparr>
           in case mc_fault m (OpGet key) of
                Some e \<Rightarrow> (m', Inl e)
              | None \<Rightarrow> (case items m key of None \<Rightarrow> (m', Inl ErrCacheMiss) | Some it \<Rightarrow> (m', Inr it)))"

definition client_Set :: "memcache \<Rightarrow> Item \<Rightarrow> memcache \<times> mc_error option" where
  "client_Set m item =
     (if \<not> legalKey (Key item) then (m, Some ErrMalformedKey)
      else let m' = m\<lparr>mc_ops := mc_ops m @ [OpSet item]\<rparr>
           in case mc_fault m (OpSet item) of
                Some e \<Rightarrow> (m', Some e)
              | None \<Rightarrow> (m'\<lparr>items := (items m)(Key item \<mapsto> item)\<rparr>, None))"

subsection \<open>MemcachedClient\<close>

text \<open>
  \<open>TtlSeconds\<close> is \<open>int32(cfg.TtlForRobotsTxt.Seconds())\<close>, the configured duration
  after Go's conversion through a float; the model takes the converted value as given.
\<close>

record MemcachedClient =
  client :: memcache
  TtlSeconds :: int

definition hashURL :: "string \<Rightarrow> string" where
  "hashURL url = hex_EncodeToString (sha256_Sum url)"

definition generateDomainHash :: "lib \<Rightarrow> string \<Rightarrow> string" where
  "generateDomainHash L url =
     (case GetDomain L url of
        Inl err \<Rightarrow> hashURL url @ ''-robots-txt''
      | Inr domain \<Rightarrow> hashURL domain @ ''-robots-txt'')"

definition GetRobotsFile :: "lib \<Rightarrow> MemcachedClient \<Rightarrow> string \<Rightarrow> MemcachedClient \<times> bytes \<times> bool" where
  "GetRobotsFile L mc url =
     (let key = generateDomainHash L url;
          (m', r) = client_Get (client mc) key
      in case r of
           Inl err \<Rightarrow> (mc\<lparr>client := m'\<rparr>, [], False)
         | Inr item \<Rightarrow> (mc\<lparr>client := m'\<rparr>, Value item, True))"

definition set_mc :: "MemcachedClient \<Rightarrow> string \<Rightarrow> bytes \<Rightarrow> int \<Rightarrow> MemcachedClient \<times> mc_error option" where
  "set_mc mc key v expiration =
     (case json_Marshal v of
        Inl err \<Rightarrow> (mc, Some (ErrOther err))
      | Inr byteValue \<Rightarrow>
          (let (m', r) = client_Set (client mc) \<lparr>Key = key, Value = byteValue, Expiration = expiration\<rparr>
           in (mc\<lparr>client := m'\<rparr>, r)))"

text \<open>\<open>SaveRobotsFile\<close> logs the error of \<open>set\<close> and returns nothing.\<close>

definition SaveRobotsFile :: "lib \<Rightarrow> MemcachedClient \<Rightarrow> string \<Rightarrow> bytes \<Rightarrow> MemcachedClient" where
  "SaveRobotsFile L mc url robotFile =
     (let key = generateDomainHash L url
      in fst (set_mc mc key robotFile (TtlSeconds mc)))"

section \<open>Package model\<close>

record Rule =
  ID :: int
  Domain' :: string
  Blocked :: bool
  RobotsTxt :: string
  CreatedAt :: int
  UpdatedAt :: int

record AllowedCrawlResponse =
  IsAllowed :: bool
  Blocked' :: bool
  StatusCode :: int
  Error :: string

record TargetResponse =
  StatusCode' :: int
  Body :: bytes

section \<open>Package persistence: the rule repository\<close>

subsection \<open>The store\<close>

text \<open>
  Modelled from the spec: the table \<open>web_crawler.custom_rule\<close>, whose schema is not among
  the sources. The statements of the repository name the columns \<open>id\<close>, \<open>domain\<close>,
  \<open>robots_txt\<close>, \<open>created_at\<close> and \<open>updated_at\<close>; the column \<open>blocked\<close> is the one the
  spec's schema lists (a surrogate integer id, a domain, a text \<open>robots_txt\<close>, a boolean
  \<open>blocked\<close>, two timestamps maintained by the store).

  The store behind \<open>*sql.DB\<close>: its rows, in the order in which a query visits them;
  the statements it has been sent (\<open>db_log\<close>); \<open>db_fault\<close>, the error with which it
  answers a statement if it does (connection lost, timeout, a violated constraint, a
  value that does not scan); and \<open>int4in\<close>, its reading of a text parameter that is
  compared with the integer column \<open>id\<close>, an error when the text is no integer. The
  driver sends a Go \<open>string\<close> as it is and a Go \<open>int\<close> as its decimal text.
\<close>

record row =
  row_id :: int
  row_domain :: string
  row_robots_txt :: string
  row_blocked :: bool
  row_created_at :: int
  row_updated_at :: int

datatype stmt =
    SelectByDomain string
  | SelectById string
  | UpdateRule string string string
  | DeleteRule string

record database =
  rows :: "row list"
  db_fault :: "stmt \<Rightarrow> error option"
  int4in :: "string \<Rightarrow> error + int"
  db_log :: "stmt list"

definition sent_to :: "database \<Rightarrow> stmt \<Rightarrow> database" where
  "sent_to db s = db\<lparr>db_log := db_log db @ [s]\<rparr>"

text \<open>
  \<open>row.Scan(&rule.ID, &rule.Domain, &rule.RobotsTxt, &rule.CreatedAt, &rule.UpdatedAt)\<close>
  into \<open>var rule model.Rule\<close>: the five columns selected; \<open>Blocked\<close> keeps the zero value.
\<close>

definition Scan :: "row \<Rightarrow> Rule" where
  "Scan r =
     \<lparr>ID = row_id r, Domain' = row_domain r, Blocked = False, RobotsTxt = row_robots_txt r,
      CreatedAt = row_created_at r, UpdatedAt = row_updated_at r\<rparr>"

text \<open>A reader of decimal text, for concrete inputs: an optional minus sign and digits.\<close>

definition decimal :: "string \<Rightarrow> nat" where
  "decimal ds = foldl (\<lambda>n c. 10 * n + (of_char c - 48)) 0 ds"

definition plain_int4in :: "string \<Rightarrow> error + int" where
  "plain_int4in t =
     (let ds = (if take 1 t = ''-'' then drop 1 t else t)
      in if ds \<noteq> [] \<and> list_all is_digit ds
         then Inr (if take 1 t = ''-'' then - int (decimal ds) else int (decimal ds))
         else Inl (''pq: invalid input syntax for type integer: '' @ quote t))"

subsection \<open>RuleRepository\<close>

definition GetByUrl :: "lib \<Rightarrow> database \<Rightarrow> string \<Rightarrow> database \<times> (error + Rule)" where
  "GetByUrl L db url =
     (case GetDomain L url of
        Inl err \<Rightarrow> (db, Inl (''failed to parse url. '' @ err))
      | Inr domain \<Rightarrow>
          (case db_fault db (SelectByDomain domain) of
             Some err \<Rightarrow> (sent_to db (SelectByDomain domain), Inl err)
           | None \<Rightarrow>
               (case find (\<lambda>r. row_domain r = domain) (rows db) of
                  None \<Rightarrow> (sent_to db (SelectByDomain domain),
                            Inl (''rule with domain '' @ sq domain @ '' not found''))
                | Some r \<Rightarrow> (sent_to db (SelectByDomain domain), Inr (Scan r)))))"

definition GetById :: "database \<Rightarrow> string \<Rightarrow> database \<times> (error + Rule)" where
  "GetById db id' =
     (case db_fault db (SelectById id') of
        Some err \<Rightarrow> (sent_to db (SelectById id'), Inl err)
      | None \<Rightarrow>
          (case int4in db id' of
             Inl err \<Rightarrow> (sent_to db (SelectById id'), Inl err)
           | Inr i \<Rightarrow>
               (case find (\<lambda>r. row_id r = i) (rows db) of
                  None \<Rightarrow> (sent_to db (SelectById id'), Inl (''rule with id '' @ sq id' @ '' not found''))
                | Some r \<Rightarrow> (sent_to db (SelectById id'), Inr (Scan r)))))"

text \<open>
  \<open>UPDATE web_crawler.custom_rule SET domain = $1, robots_txt = $2 WHERE id = $3\<close>, then
  \<open>GetById(strconv.Itoa(rule.ID))\<close>.
\<close>

definition Update :: "database \<Rightarrow> Rule \<Rightarrow> database \<times> (error + Rule)" where
  "Update db rule =
     (let s = UpdateRule (Domain' rule) (RobotsTxt rule) (Itoa (ID rule))
      in case db_fault db s of
           Some err \<Rightarrow> (sent_to db s, Inl err)
         | None \<Rightarrow>
             (case int4in db (Itoa (ID rule)) of
                Inl err \<Rightarrow> (sent_to db s, Inl err)
              | Inr i \<Rightarrow>
                  GetById
                    ((sent_to db s)
                       \<lparr>rows :=
                          map (\<lambda>r. if row_id r = i
                                    then r\<lparr>row_domain := Domain' rule, row_robots_txt := RobotsTxt rule\<rparr>
                                    else r)
                            (rows db)\<rparr>)
                    (Itoa (ID rule))))"

text \<open>\<open>DELETE FROM web_crawler.custom_rule WHERE id = $1\<close>.\<close>

definition Delete :: "database \<Rightarrow> string \<Rightarrow> database \<times> error option" where
  "Delete db ruleId =
     (case db_fault db (DeleteRule ruleId) of
        Some err \<Rightarrow> (sent_to db (DeleteRule ruleId), Some err)
      | None \<Rightarrow>
          (case int4in db ruleId of
             Inl err \<Rightarrow> (sent_to db (DeleteRule ruleId), Some err)
           | Inr i \<Rightarrow>
               ((sent_to db (DeleteRule ruleId))\<lparr>rows := filter (\<lambda>r. row_id r \<noteq> i) (rows db)\<rparr>, None)))"

section \<open>Package handler\<close>

subsection \<open>The handler's collaborators\<close>

text \<open>
  The network behind \<open>http.Client\<close>: \<open>RoundTrip\<close> is what a request meets in the
  transport (an error, or a response whose body reads to the end or fails on the way),
  \<open>sent\<close> the requests made. \<open>http.NewRequest\<close> parses the URL and fails when that fails.
  \<open>Client.Do\<close> returns an error of the transport as a \<open>*url.Error\<close>, whose operation is
  the method with its first letter kept and the rest in lower case:
  \<open>Get "https://example.com/robots.txt": dial tcp: connection refused\<close>.
\<close>

record http_Request =
  Method :: string
  ReqURL :: string
  UserAgent :: string

record http_Response =
  RespStatusCode :: int
  RespBody :: "error + bytes"

record http_Client =
  RoundTrip :: "http_Request \<Rightarrow> error + http_Response"
  sent :: "http_Request list"

definition http_NewRequest :: "lib \<Rightarrow> string \<Rightarrow> string \<Rightarrow> error + http_Request" where
  "http_NewRequest L method url =
     (case url_Parse L url of
        Inl err \<Rightarrow> Inl err
      | Inr u \<Rightarrow> Inr \<lparr>Method = method, ReqURL = url, UserAgent = []\<rparr>)"

definition urlErrorOp :: "string \<Rightarrow> string" where
  "urlErrorOp method = (case method of [] \<Rightarrow> ''Get'' | c # cs \<Rightarrow> c # ToLower cs)"

definition Do :: "http_Client \<Rightarrow> http_Request \<Rightarrow> http_Client \<times> (error + http_Response)" where
  "Do cl req =
     (cl\<lparr>sent := sent cl @ [req]\<rparr>,
      case RoundTrip cl req of
        Inl err \<Rightarrow> Inl (url_Error (urlErrorOp (Method req)) (ReqURL req) err)
      | Inr resp \<Rightarrow> Inr resp)"

record TelemetryConfig =
  Enabled :: bool

record Config =
  RuleUserAgent :: string
  TelemetrySettings :: TelemetryConfig

text \<open>
  The two counters that \<open>telemetry.SetupMetrics\<close> builds are closures over the
  configuration it was given, \<open>metrics_cfg\<close>, and add to their instrument only when
  \<open>cfg.TelemetrySettings.Enabled\<close>. \<open>SuccessResponses\<close> and \<open>ErrorResponses\<close> are the
  sums added to the two instruments. The handler calls both with the count 1.
\<close>

record ApiMetrics =
  metrics_cfg :: Config
  SuccessResponses :: nat
  ErrorResponses :: nat

record RuleApiHandler =
  cfg :: Config
  cache :: MemcachedClient
  ruleRepo :: database
  httpClient :: http_Client
  metrics :: ApiMetrics

definition SuccessResponseCounter :: "RuleApiHandler \<Rightarrow> RuleApiHandler" where
  "SuccessResponseCounter h =
     (if Enabled (TelemetrySettings (metrics_cfg (metrics h)))
      then h\<lparr>metrics := (metrics h)\<lparr>SuccessResponses := SuccessResponses (metrics h) + 1\<rparr>\<rparr>
      else h)"

definition ErrorResponseCounter :: "RuleApiHandler \<Rightarrow> RuleApiHandler" where
  "ErrorResponseCounter h =
     (if Enabled (TelemetrySettings (metrics_cfg (metrics h)))
      then h\<lparr>metrics := (metrics h)\<lparr>ErrorResponses := ErrorResponses (metrics h) + 1\<rparr>\<rparr>
      else h)"

text \<open>
  The request: \<open>c.Query(key)\<close> is the first value of the query parameter, the empty
  string when the parameter is missing.
\<close>

record Context =
  query :: "string \<rightharpoonup> string"

definition Query :: "Context \<Rightarrow> string \<Rightarrow> string" where
  "Query c key = (case query c key of None \<Rightarrow> [] | Some v \<Rightarrow> v)"

text \<open>A function of the handler returns, or panics (the recovery middleware answers then).\<close>

datatype 'a outcome = Panic | Return 'a

subsection \<open>Fetching the robots file\<close>

definition isSuccess :: "int \<Rightarrow> bool" where
  "isSuccess statusCode = (statusCode \<ge> 200 \<and> statusCode < 300)"

text \<open>
  \<open>requestToRobotsTxt\<close> drops the error of \<open>http.NewRequest\<close>: when the request cannot be
  built, \<open>req\<close> is nil and \<open>req.Header.Set\<close> panics.
\<close>

definition requestToRobotsTxt ::
    "lib \<Rightarrow> RuleApiHandler \<Rightarrow> string \<Rightarrow> RuleApiHandler \<times> (error + TargetResponse) outcome" where
  "requestToRobotsTxt L h url =
     (case GetBaseUrl L url of
        Inl err \<Rightarrow> (h, Return (Inl (''failed to parse url. '' @ err)))
      | Inr baseUrl \<Rightarrow>
          (case http_NewRequest L ''GET'' (baseUrl @ ''/robots.txt'') of
             Inl err \<Rightarrow> (h, Panic)
           | Inr req \<Rightarrow>
               (let (cl, resp) = Do (httpClient h) (req\<lparr>UserAgent := RuleUserAgent (cfg h)\<rparr>);
                    h' = h\<lparr>httpClient := cl\<rparr>
                in case resp of
                     Inl err \<Rightarrow> (h', Return (Inl err))
                   | Inr resp \<Rightarrow>
                       (case RespBody resp of
                          Inl err \<Rightarrow> (h', Return (Inl err))
                        | Inr body \<Rightarrow>
                            (h', Return (Inr \<lparr>StatusCode' = RespStatusCode resp, Body = body\<rparr>))))))"

definition getRobotsTxt ::
    "lib \<Rightarrow> RuleApiHandler \<Rightarrow> string \<Rightarrow> RuleApiHandler \<times> (error + TargetResponse) outcome" where
  "getRobotsTxt L h url =
     (let (mc, file, ok) = GetRobotsFile L (cache h) url;
          h1 = h\<lparr>cache := mc\<rparr>
      in if ok then (h1, Return (Inr \<lparr>StatusCode' = 200, Body = file\<rparr>))
         else
           (case requestToRobotsTxt L h1 url of
              (h2, Panic) \<Rightarrow> (h2, Panic)
            | (h2, Return (Inl err)) \<Rightarrow> (h2, Return (Inl err))
            | (h2, Return (Inr tResp)) \<Rightarrow>
                (if isSuccess (StatusCode' tResp) \<and> length (Body tResp) \<noteq> 0
                 then (h2\<lparr>cache := SaveRobotsFile L (cache h2) url (Body tResp)\<rparr>, Return (Inr tResp))
                 else (h2, Return (Inr tResp)))))"

subsection \<open>GetAllowedCrawl\<close>

text \<open>A reply is the HTTP status and the JSON object that \<open>c.JSON\<close> writes.\<close>

type_synonym reply = "int \<times> AllowedCrawlResponse"

text \<open>
  The end of \<open>GetAllowedCrawl\<close>, reached from both branches with the directive text, the
  \<open>blocked\<close> flag and the status in hand: the evaluator decides.
\<close>

definition evaluate ::
    "lib \<Rightarrow> RuleApiHandler \<Rightarrow> string \<Rightarrow> string \<Rightarrow> string \<Rightarrow> bool \<Rightarrow> int \<Rightarrow> RuleApiHandler \<times> reply outcome" where
  "evaluate L h url userAgent robotsTxt blocked targetResponseStatusCode =
     (if AgentAllowed L robotsTxt userAgent url
      then (SuccessResponseCounter h,
            Return (200, \<lparr>IsAllowed = True, Blocked' = blocked,
                          StatusCode = targetResponseStatusCode, Error = []\<rparr>))
      else (SuccessResponseCounter h,
            Return (200, \<lparr>IsAllowed = False, Blocked' = blocked,
                          StatusCode = targetResponseStatusCode, Error = []\<rparr>)))"

text \<open>The else branch: no custom rule applies, \<open>blocked\<close> is still \<open>false\<close>.\<close>

definition upload ::
    "lib \<Rightarrow> RuleApiHandler \<Rightarrow> string \<Rightarrow> string \<Rightarrow> RuleApiHandler \<times> reply outcome" where
  "upload L h url userAgent =
     (case getRobotsTxt L h url of
        (h', Panic) \<Rightarrow> (h', Panic)
      | (h', Return (Inl err)) \<Rightarrow>
          (ErrorResponseCounter h',
           Return (500, \<lparr>IsAllowed = False, Blocked' = False, StatusCode = 500, Error = err\<rparr>))
      | (h', Return (Inr tResp)) \<Rightarrow>
          (if \<not> isSuccess (StatusCode' tResp)
           then (SuccessResponseCounter h',
                 Return (200, \<lparr>IsAllowed = False, Blocked' = False,
                               StatusCode = StatusCode' tResp, Error = Body tResp\<rparr>))
           else evaluate L h' url userAgent (Body tResp) False (StatusCode' tResp)))"

definition GetAllowedCrawl :: "lib \<Rightarrow> RuleApiHandler \<Rightarrow> Context \<Rightarrow> RuleApiHandler \<times> reply outcome" where
  "GetAllowedCrawl L h c =
     (let url = Query c ''url''
      in if url = []
         then (ErrorResponseCounter h,
               Return (400, \<lparr>IsAllowed = False, Blocked' = False, StatusCode = 400,
                             Error = sq ''url'' @ '' query parameter is required''\<rparr>))
         else
           (let userAgent = Query c ''user_agent''
            in if userAgent = []
               then (ErrorResponseCounter h,
                     Return (400, \<lparr>IsAllowed = False, Blocked' = False, StatusCode = 400,
                                   Error = sq ''user_agent'' @ '' query parameter is required''\<rparr>))
               else
                 (let (db, r) = GetByUrl L (ruleRepo h) url;
                      h' = h\<lparr>ruleRepo := db\<rparr>
                  in case r of
                       Inl err \<Rightarrow> upload L h' url userAgent
                     | Inr rule \<Rightarrow>
                         if RobotsTxt rule \<noteq> []
                         then evaluate L h' url userAgent (RobotsTxt rule) (Blocked rule) 200
                         else upload L h' url userAgent)))"

subsection \<open>DeleteCustomRule\<close>

datatype json = ErrorJSON string | MessageJSON string

definition DeleteCustomRule :: "RuleApiHandler \<Rightarrow> Context \<Rightarrow> RuleApiHandler \<times> int \<times> json" where
  "DeleteCustomRule h c =
     (let id' = Query c ''id''
      in if id' = [] then (h, 400, ErrorJSON (sq ''id'' @ '' query parameter is required''))
         else
           (case Delete (ruleRepo h) id' of
              (db, Some err) \<Rightarrow>
                (h\<lparr>ruleRepo := db\<rparr>, 500, ErrorJSON (''failed to delete custom rule. '' @ err))
            | (db, None) \<Rightarrow>
                (h\<lparr>ruleRepo := db\<rparr>, 200, MessageJSON (''rule with id '' @ sq id' @ '' is deleted''))))"

section \<open>Terms of the statements\<close>

text \<open>
  The request that \<open>requestToRobotsTxt\<close> sends for a base URL, and the handler after a
  cache miss and that request: the lookup is in the provider's log and the request in
  the network's.
\<close>

definition robots_request :: "RuleApiHandler \<Rightarrow> string \<Rightarrow> http_Request" where
  "robots_request h baseUrl =
     \<lparr>Method = ''GET'', ReqURL = baseUrl @ ''/robots.txt'', UserAgent = RuleUserAgent (cfg h)\<rparr>"

definition after_fetch :: "lib \<Rightarrow> RuleApiHandler \<Rightarrow> string \<Rightarrow> string \<Rightarrow> RuleApiHandler" where
  "after_fetch L h url baseUrl =
     h\<lparr>cache := (cache h)\<lparr>client := (client (cache h))
                \<lparr>mc_ops := mc_ops (client (cache h)) @ [OpGet (generateDomainHash L url)]\<rparr>\<rparr>,
       httpClient := (httpClient h)\<lparr>sent := sent (httpClient h) @ [robots_request h baseUrl]\<rparr>\<rparr>"

text \<open>
  Concrete states: an empty cache on a provider without faults, a store without faults
  that holds the given rows (\<open>rule_row\<close> builds one), a network that meets every request
  with the given answer, a configuration with telemetry enabled, and the handler that
  \<open>main\<close> assembles over them (\<open>SetupMetrics\<close>, with telemetry enabled, has called each
  counter once); a request with both query parameters, a request with an \<open>id\<close>; two
  robots files.
\<close>

definition empty_cache :: MemcachedClient where
  "empty_cache =
     \<lparr>client = \<lparr>items = Map.empty, mc_fault = (\<lambda>op. None), mc_ops = []\<rparr>, TtlSeconds = 86400\<rparr>"

definition rule_row :: "int \<Rightarrow> string \<Rightarrow> string \<Rightarrow> bool \<Rightarrow> row" where
  "rule_row i domain robotsTxt blocked =
     \<lparr>row_id = i, row_domain = domain, row_robots_txt = robotsTxt, row_blocked = blocked,
      row_created_at = 0, row_updated_at = 0\<rparr>"

definition store :: "row list \<Rightarrow> database" where
  "store rs = \<lparr>rows = rs, db_fault = (\<lambda>s. None), int4in = plain_int4in, db_log = []\<rparr>"

definition network :: "error + http_Response \<Rightarrow> http_Client" where
  "network answer = \<lparr>RoundTrip = (\<lambda>req. answer), sent = []\<rparr>"

definition config :: Config where
  "config = \<lparr>RuleUserAgent = ''Mozilla/5.0'', TelemetrySettings = \<lparr>Enabled = True\<rparr>\<rparr>"

definition handler :: "row list \<Rightarrow> error + http_Response \<Rightarrow> RuleApiHandler" where
  "handler rs answer =
     \<lparr>cfg = config, cache = empty_cache, ruleRepo = store rs, httpClient = network answer,
      metrics = \<lparr>metrics_cfg = config, SuccessResponses = 1, ErrorResponses = 1\<rparr>\<rparr>"

definition request :: "string \<Rightarrow> string \<Rightarrow> Context" where
  "request url userAgent = \<lparr>query = [''url'' \<mapsto> url, ''user_agent'' \<mapsto> userAgent]\<rparr>"

definition id_request :: "string \<Rightarrow> Context" where
  "id_request id' = \<lparr>query = [''id'' \<mapsto> id']\<rparr>"

definition allow_test :: string where
  "allow_test = ''User-agent: *'' @ [CHR 0x0A] @ ''Allow: /test''"

definition disallow_test :: string where
  "disallow_test = ''User-agent: *'' @ [CHR 0x0A] @ ''Disallow: /test''"

section \<open>Properties of the cache key\<close>

lemma length_hex_EncodeToString: "length (hex_EncodeToString bs) = 2 * length bs"
  by (induction bs) (simp_all add: hex_EncodeToString_def)

lemma hexdigit_cases: "hexdigit n \<in> set ''0123456789abcdef''"
proof -
  have "n mod 16 < length ''0123456789abcdef''" by simp
  then show ?thesis unfolding hexdigit_def by (rule nth_mem)
qed

lemma legal_byte_hexdigit: "legal_byte (hexdigit n)"
  using hexdigit_cases [of n] by (auto simp: legal_byte_def)

lemma legal_byte_hex: "list_all legal_byte (hex_EncodeToString bs)"
  by (induction bs) (simp_all add: hex_EncodeToString_def legal_byte_hexdigit)

lemma length_digest_bytes: "length (digest_bytes d) = 32"
  by (cases d rule: digest_bytes.cases) (simp add: be_bytes32_def)

lemma length_sha256_Sum: "length (sha256_Sum m) = 32"
  by (simp add: sha256_Sum_def length_digest_bytes)

lemma length_hashURL: "length (hashURL s) = 64"
  by (simp add: hashURL_def length_hex_EncodeToString length_sha256_Sum)

lemma length_generateDomainHash: "length (generateDomainHash L url) = 75"
  by (simp add: generateDomainHash_def length_hashURL split: sum.split)

lemma legalKey_generateDomainHash: "legalKey (generateDomainHash L url)"
proof -
  have "list_all legal_byte (hashURL s @ ''-robots-txt'')" for s
    by (simp add: hashURL_def legal_byte_hex) (simp add: legal_byte_def)
  then have "list_all legal_byte (generateDomainHash L url)"
    by (simp add: generateDomainHash_def split: sum.split)
  then show ?thesis
    using length_generateDomainHash [of L url] by (simp add: legalKey_def)
qed

lemma GetRobotsFile_ops:
  "mc_ops (client (fst (GetRobotsFile L mc url))) =
     mc_ops (client mc) @ [OpGet (generateDomainHash L url)]"
  by (simp add: GetRobotsFile_def client_Get_def legalKey_generateDomainHash Let_def
      split: option.split sum.split prod.split)

lemma SaveRobotsFile_ops:
  "mc_ops (client (SaveRobotsFile L mc url b)) =
     mc_ops (client mc) @
       [OpSet \<lparr>Key = generateDomainHash L url, Value = quote (base64_EncodeToString b),
               Expiration = TtlSeconds mc\<rparr>]"
  by (simp add: SaveRobotsFile_def set_mc_def json_Marshal_def client_Set_def
      legalKey_generateDomainHash Let_def split: option.split sum.split prod.split)

lemma GetDomain_no_scheme:
  "GetDomain plain_lib ''example.com/test'' =
     Inl ''invalid url. Url should contain scheme and hostname''"
  by code_simp

lemma sha256_no_scheme:
  "hex_EncodeToString (sha256_Sum ''example.com/test'') =
     ''0f88ecc341bcd194bb745ade7a8fe2a6809b6bbf66639af866778b124ba337f2''"
  by code_simp

text \<open>
  C10. Key derivation is total: whatever the input and whatever the parser answers,
  \<open>generateDomainHash\<close> returns a key, the hex SHA-256 digest of the hostname followed by
  \<open>-robots-txt\<close>, and when \<open>GetDomain\<close> fails (the URL does not parse, or has no
  hostname) the digest of the whole input followed by the same suffix. The key is always
  75 bytes long and legal for the provider, so the client library never refuses it:
  \<open>GetRobotsFile\<close> sends exactly one lookup, under the derived key, and answers with what
  the provider holds there (with nothing and \<open>false\<close> on a miss or a failure of the
  provider); \<open>SaveRobotsFile\<close> sends exactly one write under that key. Neither has an
  error to return.
\<close>

theorem generateDomainHash_total:
  "generateDomainHash L url =
     hex_EncodeToString
       (sha256_Sum (case GetDomain L url of Inl err \<Rightarrow> url | Inr domain \<Rightarrow> domain))
       @ ''-robots-txt''
   \<and> (\<forall>err. GetDomain L url = Inl err \<longrightarrow>
         generateDomainHash L url = hex_EncodeToString (sha256_Sum url) @ ''-robots-txt'')
   \<and> length (generateDomainHash L url) = 75
   \<and> legalKey (generateDomainHash L url)
   \<and> GetRobotsFile L mc url =
       (mc\<lparr>client := (client mc)
              \<lparr>mc_ops := mc_ops (client mc) @ [OpGet (generateDomainHash L url)]\<rparr>\<rparr>,
        case mc_fault (client mc) (OpGet (generateDomainHash L url)) of
          Some e \<Rightarrow> ([], False)
        | None \<Rightarrow>
            (case items (client mc) (generateDomainHash L url) of
               None \<Rightarrow> ([], False)
             | Some item \<Rightarrow> (Value item, True)))
   \<and> mc_ops (client (SaveRobotsFile L mc url b)) =
       mc_ops (client mc) @
         [OpSet \<lparr>Key = generateDomainHash L url, Value = quote (base64_EncodeToString b),
                 Expiration = TtlSeconds mc\<rparr>]"
proof -
  have k: "generateDomainHash L url =
     hex_EncodeToString
       (sha256_Sum (case GetDomain L url of Inl err \<Rightarrow> url | Inr domain \<Rightarrow> domain))
       @ ''-robots-txt''"
    by (simp add: generateDomainHash_def hashURL_def split: sum.split)
  have f: "\<forall>err. GetDomain L url = Inl err \<longrightarrow>
      generateDomainHash L url = hex_EncodeToString (sha256_Sum url) @ ''-robots-txt''"
    by (simp add: generateDomainHash_def hashURL_def)
  have g: "GetRobotsFile L mc url =
       (mc\<lparr>client := (client mc)
              \<lparr>mc_ops := mc_ops (client mc) @ [OpGet (generateDomainHash L url)]\<rparr>\<rparr>,
        case mc_fault (client mc) (OpGet (generateDomainHash L url)) of
          Some e \<Rightarrow> ([], False)
        | None \<Rightarrow>
            (case items (client mc) (generateDomainHash L url) of
               None \<Rightarrow> ([], False)
             | Some item \<Rightarrow> (Value item, True)))"
    by (simp add: GetRobotsFile_def client_Get_def legalKey_generateDomainHash Let_def
        split: option.split)
  show ?thesis
    using k f g length_generateDomainHash [of L url] legalKey_generateDomainHash [of L url]
      SaveRobotsFile_ops [of L mc url b]
    by (intro conjI)
qed

theorem generateDomainHash_total_witness:
  "GetDomain plain_lib ''example.com/test'' =
     Inl ''invalid url. Url should contain scheme and hostname''
   \<and> generateDomainHash plain_lib ''example.com/test'' =
       ''0f88ecc341bcd194bb745ade7a8fe2a6809b6bbf66639af866778b124ba337f2-robots-txt''
   \<and> GetRobotsFile plain_lib empty_cache ''example.com/test'' =
       (empty_cache\<lparr>client := (client empty_cache)
          \<lparr>mc_ops :=
             [OpGet ''0f88ecc341bcd194bb745ade7a8fe2a6809b6bbf66639af866778b124ba337f2-robots-txt'']\<rparr>\<rparr>,
        [], False)"
proof -
  have m: "mc_fault (client empty_cache) op = None" "items (client empty_cache) key = None"
      "mc_ops (client empty_cache) = []" for op key
    by (simp_all add: empty_cache_def)
  from generateDomainHash_total [of plain_lib "''example.com/test''" empty_cache "[]"]
  have "generateDomainHash plain_lib ''example.com/test'' =
        hex_EncodeToString (sha256_Sum ''example.com/test'') @ ''-robots-txt''"
    and "GetRobotsFile plain_lib empty_cache ''example.com/test'' =
       (empty_cache\<lparr>client := (client empty_cache)
          \<lparr>mc_ops := [OpGet (generateDomainHash plain_lib ''example.com/test'')]\<rparr>\<rparr>,
        [], False)"
    by (simp_all add: GetDomain_no_scheme m)
  then show ?thesis
    by (simp add: GetDomain_no_scheme sha256_no_scheme)
qed

lemma hashURL_EXAMPLE:
  "hashURL ''EXAMPLE.com'' = ''b3943d6b51b38ffb3a0cd5d187f300cc5ff16a3ac5bfd0a41f7fba5ec5961174''"
  by code_simp

lemma hashURL_example:
  "hashURL ''example.com'' = ''a379a6f6eeafb9a55e378c118034e2751e682fab9f2d30ab13d2125586ce1947''"
  by code_simp

lemma GetDomain_EXAMPLE: "GetDomain plain_lib ''https://EXAMPLE.com/test'' = Inr ''EXAMPLE.com''"
  by code_simp

lemma GetDomain_example: "GetDomain plain_lib ''https://example.com/test'' = Inr ''example.com''"
  by code_simp

lemma ToLower_EXAMPLE: "ToLower ''EXAMPLE.com'' = ''example.com''"
  by code_simp

lemma plain_Parse_example:
  "plain_Parse ''https://example.com/test'' = Inr \<lparr>Scheme = ''https'', Hostname = ''example.com''\<rparr>"
  by code_simp

lemma plain_Parse_other:
  "plain_Parse ''http://example.com/other?x=1'' =
     Inr \<lparr>Scheme = ''http'', Hostname = ''example.com''\<rparr>"
  by code_simp

text \<open>
  C7, as stated, fails: the claim has the key be the digest of the lower-cased hostname,
  equal for hostnames that differ in letter case. The code hashes the hostname as the
  parser returns it, and \<open>url.Parse\<close> lower-cases the scheme only. For
  \<open>https://EXAMPLE.com/test\<close> the hostname is \<open>EXAMPLE.com\<close>, and the key is neither the
  digest of \<open>example.com\<close> with the suffix nor the key of \<open>https://example.com/test\<close>.
\<close>

theorem generateDomainHash_lowercase_counterexample:
  "GetDomain plain_lib ''https://EXAMPLE.com/test'' = Inr ''EXAMPLE.com''
   \<and> generateDomainHash plain_lib ''https://EXAMPLE.com/test''
       \<noteq> hashURL (ToLower ''EXAMPLE.com'') @ ''-robots-txt''
   \<and> generateDomainHash plain_lib ''https://EXAMPLE.com/test''
       \<noteq> generateDomainHash plain_lib ''https://example.com/test''"
  by (simp add: generateDomainHash_def GetDomain_EXAMPLE GetDomain_example ToLower_EXAMPLE
      hashURL_EXAMPLE hashURL_example)

text \<open>
  C7, amended. For every URL that parses with a hostname, the key is the hex SHA-256
  digest of that hostname, byte for byte as the parser returns it (no change of letter
  case), followed by \<open>-robots-txt\<close>; hence two URLs whose parsed hostnames are the same
  bytes have the same key, whatever their schemes, paths and queries.
\<close>

theorem generateDomainHash_hostname:
  assumes "url_Parse L url1 = Inr u1" and "Hostname u1 \<noteq> []"
  shows "generateDomainHash L url1 =
           hex_EncodeToString (sha256_Sum (Hostname u1)) @ ''-robots-txt''
     \<and> (\<forall>url2 u2. url_Parse L url2 = Inr u2 \<and> Hostname u2 = Hostname u1 \<longrightarrow>
           generateDomainHash L url2 = generateDomainHash L url1)"
  using assms by (simp add: generateDomainHash_def GetDomain_def hashURL_def)

theorem generateDomainHash_hostname_witness:
  "url_Parse plain_lib ''https://example.com/test'' =
     Inr \<lparr>Scheme = ''https'', Hostname = ''example.com''\<rparr>
   \<and> url_Parse plain_lib ''http://example.com/other?x=1'' =
       Inr \<lparr>Scheme = ''http'', Hostname = ''example.com''\<rparr>
   \<and> generateDomainHash plain_lib ''https://example.com/test'' =
       ''a379a6f6eeafb9a55e378c118034e2751e682fab9f2d30ab13d2125586ce1947-robots-txt''
   \<and> generateDomainHash plain_lib ''http://example.com/other?x=1'' =
       ''a379a6f6eeafb9a55e378c118034e2751e682fab9f2d30ab13d2125586ce1947-robots-txt''"
proof -
  have p1: "url_Parse plain_lib ''https://example.com/test'' =
      Inr \<lparr>Scheme = ''https'', Hostname = ''example.com''\<rparr>"
    by (simp add: plain_lib_def plain_Parse_example)
  have p2: "url_Parse plain_lib ''http://example.com/other?x=1'' =
      Inr \<lparr>Scheme = ''http'', Hostname = ''example.com''\<rparr>"
    by (simp add: plain_lib_def plain_Parse_other)
  have h: "Hostname \<lparr>Scheme = ''https'', Hostname = ''example.com''\<rparr> \<noteq> []"
    by simp
  have d: "hex_EncodeToString (sha256_Sum ''example.com'') =
      ''a379a6f6eeafb9a55e378c118034e2751e682fab9f2d30ab13d2125586ce1947''"
    using hashURL_example by (simp only: hashURL_def)
  from generateDomainHash_hostname [OF p1 h]
  have "generateDomainHash plain_lib ''https://example.com/test'' =
        hex_EncodeToString (sha256_Sum ''example.com'') @ ''-robots-txt''"
    and "generateDomainHash plain_lib ''http://example.com/other?x=1'' =
        generateDomainHash plain_lib ''https://example.com/test''"
    using p2 by simp_all
  then show ?thesis
    using p1 p2 by (simp add: d)
qed

section \<open>Properties of the crawl-permission handler\<close>

lemma GetAllowedCrawl_upload:
  assumes "Query c ''url'' \<noteq> []" and "Query c ''user_agent'' \<noteq> []"
    and "case snd (GetByUrl L (ruleRepo h) (Query c ''url'')) of Inl err \<Rightarrow> True | Inr rule \<Rightarrow> RobotsTxt rule = []"
  shows "GetAllowedCrawl L h c =
     upload L (h\<lparr>ruleRepo := fst (GetByUrl L (ruleRepo h) (Query c ''url''))\<rparr>) (Query c ''url'') (Query c ''user_agent'')"
  using assms
  by (cases "GetByUrl L (ruleRepo h) (Query c ''url'')")
    (simp add: GetAllowedCrawl_def Let_def split: sum.splits)

lemma urlErrorOp_GET: "urlErrorOp ''GET'' = ''Get''"
  by code_simp

lemma requestToRobotsTxt_sends:
  assumes "GetBaseUrl L url = Inr baseUrl" and "url_Parse L (baseUrl @ ''/robots.txt'') = Inr u"
  shows "requestToRobotsTxt L h url =
     (h\<lparr>httpClient := (httpClient h)\<lparr>sent := sent (httpClient h) @ [robots_request h baseUrl]\<rparr>\<rparr>,
      Return (case RoundTrip (httpClient h) (robots_request h baseUrl) of
                Inl err \<Rightarrow> Inl (url_Error ''Get'' (baseUrl @ ''/robots.txt'') err)
              | Inr resp \<Rightarrow> (case RespBody resp of Inl err \<Rightarrow> Inl err
                             | Inr body \<Rightarrow> Inr \<lparr>StatusCode' = RespStatusCode resp, Body = body\<rparr>)))"
  using assms
  by (simp add: requestToRobotsTxt_def http_NewRequest_def Do_def robots_request_def Let_def
      urlErrorOp_GET split: sum.splits)

lemma GetRobotsFile_miss:
  assumes "\<not> snd (snd (GetRobotsFile L mc url))"
  shows "GetRobotsFile L mc url =
     (mc\<lparr>client := (client mc)\<lparr>mc_ops := mc_ops (client mc) @ [OpGet (generateDomainHash L url)]\<rparr>\<rparr>, [], False)"
  using assms
  by (simp add: GetRobotsFile_def client_Get_def legalKey_generateDomainHash Let_def
      split: option.splits sum.splits prod.splits)

lemma getRobotsTxt_miss:
  assumes "\<not> snd (snd (GetRobotsFile L (cache h) url))"
    and "GetBaseUrl L url = Inr baseUrl" and "url_Parse L (baseUrl @ ''/robots.txt'') = Inr u"
  shows "getRobotsTxt L h url =
     (case RoundTrip (httpClient h) (robots_request h baseUrl) of
        Inl err \<Rightarrow>
          (after_fetch L h url baseUrl, Return (Inl (url_Error ''Get'' (baseUrl @ ''/robots.txt'') err)))
      | Inr resp \<Rightarrow>
          (case RespBody resp of
             Inl err \<Rightarrow> (after_fetch L h url baseUrl, Return (Inl err))
           | Inr body \<Rightarrow>
               (if isSuccess (RespStatusCode resp) \<and> body \<noteq> []
                then (after_fetch L h url baseUrl)
                       \<lparr>cache := SaveRobotsFile L (cache (after_fetch L h url baseUrl)) url body\<rparr>
                else after_fetch L h url baseUrl,
                Return (Inr \<lparr>StatusCode' = RespStatusCode resp, Body = body\<rparr>))))"
  using GetRobotsFile_miss [OF assms(1)] requestToRobotsTxt_sends [OF assms(2,3)]
  by (simp add: getRobotsTxt_def after_fetch_def robots_request_def Let_def split: sum.splits)

lemma GetByUrl_found:
  assumes "GetDomain L url = Inr domain"
    and "db_fault db (SelectByDomain domain) = None"
    and "find (\<lambda>r. row_domain r = domain) (rows db) = Some r"
  shows "GetByUrl L db url = (sent_to db (SelectByDomain domain), Inr (Scan r))"
  using assms by (simp add: GetByUrl_def)

lemma evaluate_blocked:
  "snd (evaluate L h url ua txt b s) = Return (st, resp) \<Longrightarrow> Blocked' resp = b"
  by (auto simp: evaluate_def split: if_splits)

lemma upload_blocked:
  "snd (upload L h url ua) = Return (st, resp) \<Longrightarrow> Blocked' resp = False"
  by (auto simp: upload_def dest: evaluate_blocked split: prod.splits outcome.splits sum.splits if_splits)

lemma GetByUrl_Blocked: "snd (GetByUrl L db url) = Inr rule \<Longrightarrow> Blocked rule = False"
  by (auto simp: GetByUrl_def Scan_def split: sum.splits option.splits)

lemma requestToRobotsTxt_cache: "cache (fst (requestToRobotsTxt L h url)) = cache h"
  by (simp add: requestToRobotsTxt_def Do_def Let_def split: sum.splits prod.splits)

lemma requestToRobotsTxt_2xx:
  assumes "snd (requestToRobotsTxt L h url) = Return (Inr tResp)"
  shows "\<exists>baseUrl resp. GetBaseUrl L url = Inr baseUrl
           \<and> RoundTrip (httpClient h) (robots_request h baseUrl) = Inr resp
           \<and> RespBody resp = Inr (Body tResp) \<and> RespStatusCode resp = StatusCode' tResp"
  using assms
  by (fastforce simp: requestToRobotsTxt_def http_NewRequest_def Do_def robots_request_def Let_def
      split: sum.splits prod.splits)

lemma getRobotsTxt_cache_ops:
  "mc_ops (client (cache (fst (getRobotsTxt L h url)))) =
       mc_ops (client (cache h)) @ [OpGet (generateDomainHash L url)]
   \<or> (\<exists>baseUrl resp body.
         GetBaseUrl L url = Inr baseUrl
         \<and> RoundTrip (httpClient h) (robots_request h baseUrl) = Inr resp \<and> RespBody resp = Inr body
         \<and> isSuccess (RespStatusCode resp) \<and> body \<noteq> []
         \<and> mc_ops (client (cache (fst (getRobotsTxt L h url)))) =
             mc_ops (client (cache h)) @
               [OpGet (generateDomainHash L url),
                OpSet \<lparr>Key = generateDomainHash L url, Value = quote (base64_EncodeToString body),
                        Expiration = TtlSeconds (cache h)\<rparr>])"
proof -
  obtain mc fl ok where g: "GetRobotsFile L (cache h) url = (mc, fl, ok)"
    by (cases "GetRobotsFile L (cache h) url") auto
  have ops: "mc_ops (client mc) = mc_ops (client (cache h)) @ [OpGet (generateDomainHash L url)]"
    using GetRobotsFile_ops [of L "cache h" url] g by simp
  have ttl: "TtlSeconds mc = TtlSeconds (cache h)"
    using g by (auto simp: GetRobotsFile_def Let_def split: prod.splits sum.splits)
  let ?h1 = "h\<lparr>cache := mc\<rparr>"
  obtain h2 r where q: "requestToRobotsTxt L ?h1 url = (h2, r)"
    by (cases "requestToRobotsTxt L ?h1 url")
  have c2: "cache h2 = mc"
    using requestToRobotsTxt_cache [of L ?h1 url] q by simp
  show ?thesis
  proof (cases "ok \<or> (\<forall>tResp. r \<noteq> Return (Inr tResp))
      \<or> (\<exists>tResp. r = Return (Inr tResp) \<and> \<not> (isSuccess (StatusCode' tResp) \<and> Body tResp \<noteq> []))")
    case True
    then have "cache (fst (getRobotsTxt L h url)) = mc"
      using g q c2 by (auto simp: getRobotsTxt_def Let_def split: outcome.splits sum.splits)
    then show ?thesis using ops by simp
  next
    case False
    then obtain tResp where t: "\<not> ok" "r = Return (Inr tResp)" "isSuccess (StatusCode' tResp)"
        "Body tResp \<noteq> []"
      by auto
    obtain baseUrl resp where f: "GetBaseUrl L url = Inr baseUrl"
        "RoundTrip (httpClient h) (robots_request h baseUrl) = Inr resp"
        "RespBody resp = Inr (Body tResp)" "RespStatusCode resp = StatusCode' tResp"
      using requestToRobotsTxt_2xx [of L ?h1 url tResp] q t(2) by (auto simp: robots_request_def)
    have "cache (fst (getRobotsTxt L h url)) = SaveRobotsFile L mc url (Body tResp)"
      using g q c2 t by (simp add: getRobotsTxt_def Let_def)
    then have "mc_ops (client (cache (fst (getRobotsTxt L h url)))) =
        mc_ops (client (cache h)) @
          [OpGet (generateDomainHash L url),
           OpSet \<lparr>Key = generateDomainHash L url,
                   Value = quote (base64_EncodeToString (Body tResp)),
                   Expiration = TtlSeconds (cache h)\<rparr>]"
      using SaveRobotsFile_ops [of L mc url "Body tResp"] ops ttl by simp
    with f t show ?thesis
      by (intro disjI2 exI [of _ baseUrl] exI [of _ resp] exI [of _ "Body tResp"]) simp
  qed
qed

lemma evaluate_cache: "cache (fst (evaluate L h url ua txt b s)) = cache h"
  by (simp add: evaluate_def SuccessResponseCounter_def)

lemma upload_cache: "cache (fst (upload L h url ua)) = cache (fst (getRobotsTxt L h url))"
  by (auto simp: upload_def evaluate_cache SuccessResponseCounter_def ErrorResponseCounter_def
      split: prod.splits outcome.splits sum.splits)

lemma GetAllowedCrawl_cache:
  "cache (fst (GetAllowedCrawl L h c)) = cache h
   \<or> cache (fst (GetAllowedCrawl L h c)) =
       cache (fst (getRobotsTxt L (h\<lparr>ruleRepo := fst (GetByUrl L (ruleRepo h) (Query c ''url''))\<rparr>) (Query c ''url'')))"
  by (auto simp: GetAllowedCrawl_def Let_def evaluate_cache upload_cache ErrorResponseCounter_def
      split: prod.splits sum.splits)

lemma GetAllowedCrawl_cache_write:
  assumes "OpSet it \<in> set (drop (length (mc_ops (client (cache h))))
                              (mc_ops (client (cache (fst (GetAllowedCrawl L h c))))))"
  shows "\<exists>baseUrl resp body.
           GetBaseUrl L (Query c ''url'') = Inr baseUrl
           \<and> RoundTrip (httpClient h) (robots_request h baseUrl) = Inr resp \<and> RespBody resp = Inr body
           \<and> 200 \<le> RespStatusCode resp \<and> RespStatusCode resp < 300 \<and> body \<noteq> []
           \<and> it = \<lparr>Key = generateDomainHash L (Query c ''url''),
                    Value = quote (base64_EncodeToString body), Expiration = TtlSeconds (cache h)\<rparr>"
proof -
  let ?h = "h\<lparr>ruleRepo := fst (GetByUrl L (ruleRepo h) (Query c ''url''))\<rparr>"
  from GetAllowedCrawl_cache [of L h c] show ?thesis
  proof
    assume "cache (fst (GetAllowedCrawl L h c)) = cache h"
    with assms show ?thesis by simp
  next
    assume a: "cache (fst (GetAllowedCrawl L h c)) = cache (fst (getRobotsTxt L ?h (Query c ''url'')))"
    from getRobotsTxt_cache_ops [of L ?h "Query c ''url''"] show ?thesis
    proof
      assume "mc_ops (client (cache (fst (getRobotsTxt L ?h (Query c ''url''))))) =
          mc_ops (client (cache ?h)) @ [OpGet (generateDomainHash L (Query c ''url''))]"
      with assms a show ?thesis by simp
    next
      assume "\<exists>baseUrl resp body.
         GetBaseUrl L (Query c ''url'') = Inr baseUrl
         \<and> RoundTrip (httpClient ?h) (robots_request ?h baseUrl) = Inr resp \<and> RespBody resp = Inr body
         \<and> isSuccess (RespStatusCode resp) \<and> body \<noteq> []
         \<and> mc_ops (client (cache (fst (getRobotsTxt L ?h (Query c ''url''))))) =
             mc_ops (client (cache ?h)) @
               [OpGet (generateDomainHash L (Query c ''url'')),
                OpSet \<lparr>Key = generateDomainHash L (Query c ''url''),
                        Value = quote (base64_EncodeToString body),
                        Expiration = TtlSeconds (cache ?h)\<rparr>]"
      with assms a show ?thesis by (auto simp: robots_request_def isSuccess_def)
    qed
  qed
qed

lemma GetBaseUrl_example: "GetBaseUrl plain_lib ''https://example.com/test'' = Inr ''https://example.com''"
  by code_simp

lemma url_Parse_robots:
  "url_Parse plain_lib (''https://example.com'' @ ''/robots.txt'') =
     Inr \<lparr>Scheme = ''https'', Hostname = ''example.com''\<rparr>"
  by code_simp

lemma AgentAllowed_plain_lib: "AgentAllowed plain_lib robotsTxt userAgent url"
  by (simp add: plain_lib_def allow_all_def)

lemma Query_request:
  "Query (request url userAgent) ''url'' = url" "Query (request url userAgent) ''user_agent'' = userAgent"
  by (simp_all add: Query_def request_def)

lemma GetByUrl_no_rows:
  "snd (GetByUrl plain_lib (ruleRepo (handler [] answer)) ''https://example.com/test'') =
     Inl (''rule with domain '' @ sq ''example.com'' @ '' not found'')"
  by (simp add: GetByUrl_def GetDomain_example handler_def store_def)

lemma GetRobotsFile_empty_cache:
  "\<not> snd (snd (GetRobotsFile L (cache (handler rs answer)) url))"
  by (simp add: GetRobotsFile_def client_Get_def legalKey_generateDomainHash handler_def empty_cache_def Let_def)

text \<open>
  C1. A request with a non-empty \<open>url\<close> and \<open>user_agent\<close>, for whose domain the store
  returns an override rule with a non-empty \<open>robots_txt\<close>: the evaluator runs on that
  rule's text, the reply is HTTP 200 with \<open>statusCode\<close> 200 and no error, and neither the
  cache nor the network is touched: the cache client and the HTTP client are as before,
  so is the log of cache operations (no get, no put), the cached items, and the list of
  requests sent.
\<close>

theorem GetAllowedCrawl_custom_rule:
  assumes "Query c ''url'' = url" and "url \<noteq> []"
    and "Query c ''user_agent'' = userAgent" and "userAgent \<noteq> []"
    and "GetDomain L url = Inr domain"
    and "db_fault (ruleRepo h) (SelectByDomain domain) = None"
    and "find (\<lambda>r. row_domain r = domain) (rows (ruleRepo h)) = Some r"
    and "row_robots_txt r \<noteq> []"
  shows "snd (GetAllowedCrawl L h c) =
           Return (200, \<lparr>IsAllowed = AgentAllowed L (row_robots_txt r) userAgent url,
                         Blocked' = False, StatusCode = 200, Error = []\<rparr>)
     \<and> cache (fst (GetAllowedCrawl L h c)) = cache h
     \<and> mc_ops (client (cache (fst (GetAllowedCrawl L h c)))) = mc_ops (client (cache h))
     \<and> items (client (cache (fst (GetAllowedCrawl L h c)))) = items (client (cache h))
     \<and> httpClient (fst (GetAllowedCrawl L h c)) = httpClient h
     \<and> sent (httpClient (fst (GetAllowedCrawl L h c))) = sent (httpClient h)"
  using assms GetByUrl_found [OF assms(5-7)]
  by (simp add: GetAllowedCrawl_def evaluate_def Scan_def SuccessResponseCounter_def Let_def)

theorem GetAllowedCrawl_custom_rule_witness:
  "snd (GetAllowedCrawl plain_lib
          (handler [rule_row 1 ''example.com'' allow_test False] (Inl ''connection refused''))
          (request ''https://example.com/test'' ''bot'')) =
     Return (200, \<lparr>IsAllowed = True, Blocked' = False, StatusCode = 200, Error = []\<rparr>)
   \<and> mc_ops (client (cache (fst (GetAllowedCrawl plain_lib
          (handler [rule_row 1 ''example.com'' allow_test False] (Inl ''connection refused''))
          (request ''https://example.com/test'' ''bot''))))) = []
   \<and> sent (httpClient (fst (GetAllowedCrawl plain_lib
          (handler [rule_row 1 ''example.com'' allow_test False] (Inl ''connection refused''))
          (request ''https://example.com/test'' ''bot'')))) = []"
proof -
  let ?h = "handler [rule_row 1 ''example.com'' allow_test False] (Inl ''connection refused'')"
  let ?c = "request ''https://example.com/test'' ''bot''"
  have 1: "Query ?c ''url'' = ''https://example.com/test''" by (simp add: Query_request)
  have 2: "''https://example.com/test'' \<noteq> []" by simp
  have 3: "Query ?c ''user_agent'' = ''bot''" by (simp add: Query_request)
  have 4: "''bot'' \<noteq> []" by simp
  have 6: "db_fault (ruleRepo ?h) (SelectByDomain ''example.com'') = None"
    by (simp add: handler_def store_def)
  have 7: "find (\<lambda>r. row_domain r = ''example.com'') (rows (ruleRepo ?h)) =
      Some (rule_row 1 ''example.com'' allow_test False)"
    by (simp add: handler_def store_def rule_row_def)
  have 8: "row_robots_txt (rule_row 1 ''example.com'' allow_test False) \<noteq> []"
    by (simp add: rule_row_def allow_test_def)
  from GetAllowedCrawl_custom_rule [OF 1 2 3 4 GetDomain_example 6 7 8]
  show ?thesis
    by (simp add: plain_lib_def allow_all_def handler_def empty_cache_def network_def)
qed

text \<open>
  C3. The claim has the reply carry the \<open>blocked\<close> value persisted for the override
  rule, and \<open>false\<close> in every other resolution. The handler does pass \<open>rule.Blocked\<close> on, but \<open>GetByUrl\<close> selects and scans five
  columns and \<open>blocked\<close> is not among them, so the rule it returns has \<open>Blocked = false\<close>
  whatever the row holds: every reply of \<open>GetAllowedCrawl\<close> has \<open>blocked = false\<close>. The
  witness is a stored rule with \<open>blocked = true\<close> whose reply says \<open>false\<close>.
\<close>

theorem GetAllowedCrawl_never_blocked:
  assumes "snd (GetAllowedCrawl L h c) = Return (st, resp)"
  shows "Blocked' resp = False"
proof -
  obtain db r where g: "GetByUrl L (ruleRepo h) (Query c ''url'') = (db, r)"
    by (cases "GetByUrl L (ruleRepo h) (Query c ''url'')")
  have b: "Blocked rule = False" if "r = Inr rule" for rule
    using GetByUrl_Blocked [of L "ruleRepo h" "Query c ''url''" rule] g that by simp
  show ?thesis
    using assms g b
    by (auto simp: GetAllowedCrawl_def Let_def dest!: evaluate_blocked upload_blocked
        split: sum.splits if_splits)
qed

theorem GetAllowedCrawl_never_blocked_witness:
  "row_blocked (rule_row 1 ''example.com'' allow_test True)
   \<and> snd (GetAllowedCrawl plain_lib
            (handler [rule_row 1 ''example.com'' allow_test True] (Inl ''connection refused''))
            (request ''https://example.com/test'' ''bot'')) =
       Return (200, \<lparr>IsAllowed = True, Blocked' = False, StatusCode = 200, Error = []\<rparr>)"
proof -
  let ?h = "handler [rule_row 1 ''example.com'' allow_test True] (Inl ''connection refused'')"
  let ?c = "request ''https://example.com/test'' ''bot''"
  have e: "snd (GetAllowedCrawl plain_lib ?h ?c) =
      Return (200, \<lparr>IsAllowed = True, Blocked' = Blocked (Scan (rule_row 1 ''example.com'' allow_test True)),
                    StatusCode = 200, Error = []\<rparr>)"
    by (simp add: GetAllowedCrawl_def Query_request GetByUrl_def GetDomain_example handler_def store_def
        rule_row_def allow_test_def evaluate_def AgentAllowed_plain_lib Scan_def Let_def)
  from GetAllowedCrawl_never_blocked [OF e] e
  show ?thesis
    by (simp add: rule_row_def)
qed

lemma GetAllowedCrawl_body_failure:
  assumes "Query c ''url'' = url" and "url \<noteq> []"
    and "Query c ''user_agent'' = userAgent" and "userAgent \<noteq> []"
    and "case snd (GetByUrl L (ruleRepo h) url) of Inl e \<Rightarrow> True | Inr rule \<Rightarrow> RobotsTxt rule = []"
    and "\<not> snd (snd (GetRobotsFile L (cache h) url))"
    and "GetBaseUrl L url = Inr baseUrl" and "url_Parse L (baseUrl @ ''/robots.txt'') = Inr u"
    and "RoundTrip (httpClient h) (robots_request h baseUrl) = Inr resp" and "RespBody resp = Inl err"
  shows "snd (GetAllowedCrawl L h c) =
           Return (500, \<lparr>IsAllowed = False, Blocked' = False, StatusCode = 500, Error = err\<rparr>)
     \<and> items (client (cache (fst (GetAllowedCrawl L h c)))) = items (client (cache h))"
proof -
  let ?h = "h\<lparr>ruleRepo := fst (GetByUrl L (ruleRepo h) url)\<rparr>"
  have 1: "GetAllowedCrawl L h c = upload L ?h url userAgent"
    using GetAllowedCrawl_upload [of c L h] assms(1-5) by simp
  have 2: "getRobotsTxt L ?h url = (after_fetch L ?h url baseUrl, Return (Inl err))"
    using getRobotsTxt_miss [of L ?h url baseUrl u] assms(6-10)
    by (simp add: robots_request_def)
  show ?thesis
    by (simp add: 1 upload_def 2 ErrorResponseCounter_def after_fetch_def)
qed



text \<open>
  C6. No override applies, the cache misses, and the fetch returns a response whose
  status is outside 200..299: the reply is HTTP 200 with \<open>isAllowed\<close> false, the
  upstream status as \<open>statusCode\<close> and the upstream body as \<open>error\<close>; the cache has been
  asked once and written never, its items are as before. And in every run of
  \<open>GetAllowedCrawl\<close>, a write to the cache means that the fetch for the request's URL
  returned a status in 200..299 with a non-empty body, and the item written is that
  body (as \<open>set\<close> encodes it) under the key of the URL.
\<close>

theorem GetAllowedCrawl_non_2xx:
  assumes "Query c ''url'' = url" and "url \<noteq> []"
    and "Query c ''user_agent'' = userAgent" and "userAgent \<noteq> []"
    and "case snd (GetByUrl L (ruleRepo h) url) of Inl e \<Rightarrow> True | Inr rule \<Rightarrow> RobotsTxt rule = []"
    and "\<not> snd (snd (GetRobotsFile L (cache h) url))"
    and "GetBaseUrl L url = Inr baseUrl" and "url_Parse L (baseUrl @ ''/robots.txt'') = Inr u"
    and "RoundTrip (httpClient h) (robots_request h baseUrl) = Inr resp" and "RespBody resp = Inr body"
    and "\<not> (200 \<le> RespStatusCode resp \<and> RespStatusCode resp < 300)"
  shows "snd (GetAllowedCrawl L h c) =
           Return (200, \<lparr>IsAllowed = False, Blocked' = False,
                         StatusCode = RespStatusCode resp, Error = body\<rparr>)
     \<and> items (client (cache (fst (GetAllowedCrawl L h c)))) = items (client (cache h))
     \<and> mc_ops (client (cache (fst (GetAllowedCrawl L h c)))) =
         mc_ops (client (cache h)) @ [OpGet (generateDomainHash L url)]
     \<and> (\<forall>h2 c2 it.
           OpSet it \<in> set (drop (length (mc_ops (client (cache h2))))
                               (mc_ops (client (cache (fst (GetAllowedCrawl L h2 c2)))))) \<longrightarrow>
           (\<exists>baseUrl2 resp2 body2.
              GetBaseUrl L (Query c2 ''url'') = Inr baseUrl2
              \<and> RoundTrip (httpClient h2) (robots_request h2 baseUrl2) = Inr resp2
              \<and> RespBody resp2 = Inr body2
              \<and> 200 \<le> RespStatusCode resp2 \<and> RespStatusCode resp2 < 300 \<and> body2 \<noteq> []
              \<and> it = \<lparr>Key = generateDomainHash L (Query c2 ''url''),
                       Value = quote (base64_EncodeToString body2),
                       Expiration = TtlSeconds (cache h2)\<rparr>))"
proof -
  let ?h = "h\<lparr>ruleRepo := fst (GetByUrl L (ruleRepo h) url)\<rparr>"
  have 1: "GetAllowedCrawl L h c = upload L ?h url userAgent"
    using GetAllowedCrawl_upload [of c L h] assms(1-5) by simp
  have 2: "getRobotsTxt L ?h url =
      (after_fetch L ?h url baseUrl, Return (Inr \<lparr>StatusCode' = RespStatusCode resp, Body = body\<rparr>))"
    using getRobotsTxt_miss [of L ?h url baseUrl u] assms(6-11)
    by (auto simp: robots_request_def isSuccess_def)
  have 3: "snd (GetAllowedCrawl L h c) =
           Return (200, \<lparr>IsAllowed = False, Blocked' = False,
                         StatusCode = RespStatusCode resp, Error = body\<rparr>)
     \<and> items (client (cache (fst (GetAllowedCrawl L h c)))) = items (client (cache h))
     \<and> mc_ops (client (cache (fst (GetAllowedCrawl L h c)))) =
         mc_ops (client (cache h)) @ [OpGet (generateDomainHash L url)]"
    using assms(11)
    by (simp add: 1 upload_def 2 SuccessResponseCounter_def after_fetch_def isSuccess_def)
  show ?thesis
    using 3 GetAllowedCrawl_cache_write by blast
qed

theorem GetAllowedCrawl_non_2xx_witness:
  "snd (GetAllowedCrawl plain_lib
          (handler [] (Inr \<lparr>RespStatusCode = 404, RespBody = Inr ''404 page not found''\<rparr>))
          (request ''https://example.com/test'' ''bot'')) =
     Return (200, \<lparr>IsAllowed = False, Blocked' = False, StatusCode = 404,
                   Error = ''404 page not found''\<rparr>)
   \<and> items (client (cache (fst (GetAllowedCrawl plain_lib
          (handler [] (Inr \<lparr>RespStatusCode = 404, RespBody = Inr ''404 page not found''\<rparr>))
          (request ''https://example.com/test'' ''bot''))))) = Map.empty"
proof -
  let ?resp = "\<lparr>RespStatusCode = 404, RespBody = Inr ''404 page not found''\<rparr>"
  let ?h = "handler [] (Inr ?resp)"
  let ?c = "request ''https://example.com/test'' ''bot''"
  have 1: "Query ?c ''url'' = ''https://example.com/test''" by (simp add: Query_request)
  have 2: "''https://example.com/test'' \<noteq> []" by simp
  have 3: "Query ?c ''user_agent'' = ''bot''" by (simp add: Query_request)
  have 4: "''bot'' \<noteq> []" by simp
  have 5: "case snd (GetByUrl plain_lib (ruleRepo ?h) ''https://example.com/test'') of
      Inl e \<Rightarrow> True | Inr rule \<Rightarrow> RobotsTxt rule = []"
    by (simp add: GetByUrl_no_rows)
  have 9: "RoundTrip (httpClient ?h) (robots_request ?h ''https://example.com'') = Inr ?resp"
    by (simp add: handler_def network_def)
  have 10: "RespBody ?resp = Inr ''404 page not found''" by simp
  have 11: "\<not> (200 \<le> RespStatusCode ?resp \<and> RespStatusCode ?resp < 300)" by simp
  from GetAllowedCrawl_non_2xx
    [OF 1 2 3 4 5 GetRobotsFile_empty_cache GetBaseUrl_example url_Parse_robots 9 10 11]
  show ?thesis
    by (simp add: handler_def empty_cache_def)
qed

text \<open>
  C8. A request without \<open>url\<close> is answered with HTTP 400 and exactly
  \<open>{isAllowed: false, blocked: false, statusCode: 400, error: "'url' query parameter is
  required"}\<close>; a request with \<open>url\<close> and without \<open>user_agent\<close> with the same object and
  the message for \<open>user_agent\<close>. In both cases the handler has only counted an error
  response: the store, the cache and the network are as before, so no statement, no
  cache operation and no request has been issued.
\<close>

theorem GetAllowedCrawl_validation:
  "(Query c ''url'' = [] \<longrightarrow>
      GetAllowedCrawl L h c =
        (ErrorResponseCounter h,
         Return (400, \<lparr>IsAllowed = False, Blocked' = False, StatusCode = 400,
                       Error = [CHR 0x27] @ ''url'' @ [CHR 0x27] @ '' query parameter is required''\<rparr>)))
   \<and> (Query c ''url'' \<noteq> [] \<and> Query c ''user_agent'' = [] \<longrightarrow>
        GetAllowedCrawl L h c =
          (ErrorResponseCounter h,
           Return (400, \<lparr>IsAllowed = False, Blocked' = False, StatusCode = 400,
                         Error = [CHR 0x27] @ ''user_agent'' @ [CHR 0x27] @ '' query parameter is required''\<rparr>)))
   \<and> ruleRepo (ErrorResponseCounter h) = ruleRepo h
   \<and> cache (ErrorResponseCounter h) = cache h
   \<and> httpClient (ErrorResponseCounter h) = httpClient h"
  by (simp add: GetAllowedCrawl_def ErrorResponseCounter_def sq_def)

theorem GetAllowedCrawl_validation_witness:
  "Query \<lparr>query = [''user_agent'' \<mapsto> ''bot'']\<rparr> ''url'' = []
   \<and> GetAllowedCrawl plain_lib (handler [] (Inl ''connection refused''))
        \<lparr>query = [''user_agent'' \<mapsto> ''bot'']\<rparr> =
       (ErrorResponseCounter (handler [] (Inl ''connection refused'')),
        Return (400, \<lparr>IsAllowed = False, Blocked' = False, StatusCode = 400,
                      Error = [CHR 0x27] @ ''url'' @ [CHR 0x27] @ '' query parameter is required''\<rparr>))
   \<and> Query \<lparr>query = [''url'' \<mapsto> ''https://example.com/test'']\<rparr> ''user_agent'' = []
   \<and> GetAllowedCrawl plain_lib (handler [] (Inl ''connection refused''))
        \<lparr>query = [''url'' \<mapsto> ''https://example.com/test'']\<rparr> =
       (ErrorResponseCounter (handler [] (Inl ''connection refused'')),
        Return (400, \<lparr>IsAllowed = False, Blocked' = False, StatusCode = 400,
                      Error = [CHR 0x27] @ ''user_agent'' @ [CHR 0x27] @ '' query parameter is required''\<rparr>))
   \<and> db_log (ruleRepo (ErrorResponseCounter (handler [] (Inl ''connection refused'')))) = []"
proof -
  let ?h = "handler [] (Inl ''connection refused'')"
  have 1: "Query \<lparr>query = [''user_agent'' \<mapsto> ''bot'']\<rparr> ''url'' = []"
    by (simp add: Query_def)
  have 2: "Query \<lparr>query = [''url'' \<mapsto> ''https://example.com/test'']\<rparr> ''url'' \<noteq> []
      \<and> Query \<lparr>query = [''url'' \<mapsto> ''https://example.com/test'']\<rparr> ''user_agent'' = []"
    by (simp add: Query_def)
  have 3: "db_log (ruleRepo ?h) = []" by (simp add: handler_def store_def)
  show ?thesis
    using GetAllowedCrawl_validation [of "\<lparr>query = [''user_agent'' \<mapsto> ''bot'']\<rparr>" plain_lib ?h]
      GetAllowedCrawl_validation [of "\<lparr>query = [''url'' \<mapsto> ''https://example.com/test'']\<rparr>" plain_lib ?h]
      1 2 3
    by simp
qed

section \<open>Properties of the cache round trip\<close>

lemma length_base64: "length b \<le> length (base64_EncodeToString b)"
proof (induction b rule: base64_EncodeToString.induct)
  case (1 a b c rest)
  from 1 [OF refl refl refl] show ?case by (simp add: Let_def)
qed (simp_all add: Let_def)

lemma quote_base64_neq: "quote (base64_EncodeToString b) \<noteq> b"
proof
  assume "quote (base64_EncodeToString b) = b"
  then have "length (quote (base64_EncodeToString b)) = length b" by simp
  with length_base64 [of b] show False by (simp add: quote_def)
qed

lemma base64_allow_test: "base64_EncodeToString allow_test = ''VXNlci1hZ2VudDogKgpBbGxvdzogL3Rlc3Q=''"
  by code_simp

text \<open>
  C2. The claim has a read after a write return the bytes written. \<open>set\<close> stores
  \<open>json.Marshal\<close> of the byte slice, which is a JSON string: the base64 text of the bytes
  between double quotes; \<open>GetRobotsFile\<close> returns the stored value as it is, without
  decoding it. With the provider available, the read after a write of \<open>b\<close> returns that
  JSON string, and never \<open>b\<close>: the string is longer than \<open>b\<close>.
\<close>

theorem cache_roundtrip_json:
  assumes "mc_fault (client mc) (OpSet \<lparr>Key = generateDomainHash L url,
              Value = quote (base64_EncodeToString b), Expiration = TtlSeconds mc\<rparr>) = None"
    and "mc_fault (client mc) (OpGet (generateDomainHash L url)) = None"
  shows "snd (GetRobotsFile L (SaveRobotsFile L mc url b) url) = (quote (base64_EncodeToString b), True)
     \<and> snd (GetRobotsFile L (SaveRobotsFile L mc url b) url) \<noteq> (b, True)"
  using assms quote_base64_neq [of b]
  by (simp add: GetRobotsFile_def SaveRobotsFile_def set_mc_def json_Marshal_def client_Set_def
      client_Get_def legalKey_generateDomainHash Let_def split: prod.split)

theorem cache_roundtrip_json_witness:
  "snd (GetRobotsFile plain_lib (SaveRobotsFile plain_lib empty_cache ''https://example.com/test'' allow_test)
          ''https://example.com/test'') =
     ([CHR 0x22] @ ''VXNlci1hZ2VudDogKgpBbGxvdzogL3Rlc3Q='' @ [CHR 0x22], True)
   \<and> allow_test = ''User-agent: *'' @ [CHR 0x0A] @ ''Allow: /test''"
proof -
  have 1: "mc_fault (client empty_cache) (OpSet \<lparr>Key = generateDomainHash plain_lib ''https://example.com/test'',
              Value = quote (base64_EncodeToString allow_test), Expiration = TtlSeconds empty_cache\<rparr>) = None"
    by (simp add: empty_cache_def)
  have 2: "mc_fault (client empty_cache) (OpGet (generateDomainHash plain_lib ''https://example.com/test'')) = None"
    by (simp add: empty_cache_def)
  from cache_roundtrip_json [OF 1 2] show ?thesis
    by (simp add: base64_allow_test quote_def) (simp add: allow_test_def)
qed

text \<open>
  What this means for the handler: after a first resolution that fetched a robots file
  (status in 200..299, non-empty body) and cached it, a second resolution of the same
  request finds the cache entry and evaluates the JSON string in place of the robots
  file. The directive text of the second resolution is not that of the first.
\<close>

lemma GetByUrl_log: "snd (GetByUrl L (db\<lparr>db_log := l\<rparr>) url) = snd (GetByUrl L db url)"
  by (simp add: GetByUrl_def split: sum.split option.split)

lemma GetByUrl_rows:
  "fst (GetByUrl L db url) = db \<or> fst (GetByUrl L db url) = db\<lparr>db_log := db_log (fst (GetByUrl L db url))\<rparr>"
  by (simp add: GetByUrl_def sent_to_def split: sum.split option.split)

lemma GetByUrl_again:
  "snd (GetByUrl L (fst (GetByUrl L db url)) url) = snd (GetByUrl L db url)"
  using GetByUrl_rows [of L db url] GetByUrl_log [of L _ db url] by metis

lemma second_resolution_reads_json:
  assumes "Query c ''url'' = url" and "url \<noteq> []"
    and "Query c ''user_agent'' = userAgent" and "userAgent \<noteq> []"
    and "case snd (GetByUrl L (ruleRepo h) url) of Inl e \<Rightarrow> True | Inr rule \<Rightarrow> RobotsTxt rule = []"
    and "items (client (cache h)) (generateDomainHash L url) = None"
    and "\<forall>op. mc_fault (client (cache h)) op = None"
    and "GetBaseUrl L url = Inr baseUrl" and "url_Parse L (baseUrl @ ''/robots.txt'') = Inr u"
    and "RoundTrip (httpClient h) (robots_request h baseUrl) = Inr resp" and "RespBody resp = Inr body"
    and "200 \<le> RespStatusCode resp" and "RespStatusCode resp < 300" and "body \<noteq> []"
  shows "snd (GetAllowedCrawl L h c) =
           Return (200, \<lparr>IsAllowed = AgentAllowed L body userAgent url, Blocked' = False,
                         StatusCode = RespStatusCode resp, Error = []\<rparr>)
     \<and> snd (GetAllowedCrawl L (fst (GetAllowedCrawl L h c)) c) =
           Return (200, \<lparr>IsAllowed = AgentAllowed L (quote (base64_EncodeToString body)) userAgent url,
                         Blocked' = False, StatusCode = 200, Error = []\<rparr>)"
proof -
  let ?h = "h\<lparr>ruleRepo := fst (GetByUrl L (ruleRepo h) url)\<rparr>"
  let ?k = "generateDomainHash L url"
  have miss: "\<not> snd (snd (GetRobotsFile L (cache ?h) url))"
    using assms(6,7)
    by (simp add: GetRobotsFile_def client_Get_def legalKey_generateDomainHash Let_def)
  have 1: "GetAllowedCrawl L h c = upload L ?h url userAgent"
    using GetAllowedCrawl_upload [of c L h] assms(1-5) by simp
  let ?h1 = "(after_fetch L ?h url baseUrl)\<lparr>cache := SaveRobotsFile L (cache (after_fetch L ?h url baseUrl)) url body\<rparr>"
  have 2: "getRobotsTxt L ?h url = (?h1, Return (Inr \<lparr>StatusCode' = RespStatusCode resp, Body = body\<rparr>))"
    using getRobotsTxt_miss [of L ?h url baseUrl u] miss assms(8-14)
    by (simp add: robots_request_def isSuccess_def)
  have 3: "GetAllowedCrawl L h c =
      (SuccessResponseCounter ?h1,
       Return (200, \<lparr>IsAllowed = AgentAllowed L body userAgent url, Blocked' = False,
                     StatusCode = RespStatusCode resp, Error = []\<rparr>))"
    using assms(12,13) by (simp add: 1 upload_def 2 isSuccess_def evaluate_def)
  let ?h2 = "SuccessResponseCounter ?h1"
  have rr: "ruleRepo ?h2 = fst (GetByUrl L (ruleRepo h) url)"
    by (simp add: SuccessResponseCounter_def after_fetch_def)
  have 5: "case snd (GetByUrl L (ruleRepo ?h2) url) of Inl e \<Rightarrow> True | Inr rule \<Rightarrow> RobotsTxt rule = []"
    using assms(5) by (simp only: rr GetByUrl_again)
  let ?h3 = "?h2\<lparr>ruleRepo := fst (GetByUrl L (ruleRepo ?h2) url)\<rparr>"
  have 6: "GetAllowedCrawl L ?h2 c = upload L ?h3 url userAgent"
    using GetAllowedCrawl_upload [of c L ?h2] assms(1-4) 5 by simp
  have hit: "snd (GetRobotsFile L (cache ?h3) url) = (quote (base64_EncodeToString body), True)"
    using assms(7)
    by (simp add: SuccessResponseCounter_def after_fetch_def GetRobotsFile_def SaveRobotsFile_def
        set_mc_def json_Marshal_def client_Set_def client_Get_def legalKey_generateDomainHash Let_def)
  have 7: "snd (getRobotsTxt L ?h3 url) =
      Return (Inr \<lparr>StatusCode' = 200, Body = quote (base64_EncodeToString body)\<rparr>)"
    using hit by (cases "GetRobotsFile L (cache ?h3) url") (simp add: getRobotsTxt_def Let_def)
  have 8: "snd (upload L ?h3 url userAgent) =
      Return (200, \<lparr>IsAllowed = AgentAllowed L (quote (base64_EncodeToString body)) userAgent url,
                    Blocked' = False, StatusCode = 200, Error = []\<rparr>)"
    using 7 by (cases "getRobotsTxt L ?h3 url") (simp add: upload_def isSuccess_def evaluate_def)
  show ?thesis
    using 3 6 8 by simp
qed

section \<open>Properties of the rule repository\<close>

lemma find_map_row_id:
  assumes "\<And>r. row_id (f r) = row_id r"
  shows "find (\<lambda>r. row_id r = i) (map f rs) = map_option f (find (\<lambda>r. row_id r = i) rs)"
  using assms by (induction rs) simp_all

lemma find_SomeD: "find P xs = Some x \<Longrightarrow> P x"
  by (induction xs) (auto split: if_splits)

lemma Itoa_1: "Itoa 1 = ''1''"
  by (simp add: Itoa_def digits.simps)

lemma plain_int4in_1: "plain_int4in ''1'' = Inr 1"
  by (simp add: plain_int4in_def is_digit_def decimal_def)

lemma plain_int4in_7: "plain_int4in ''7'' = Inr 7"
  by (simp add: plain_int4in_def is_digit_def decimal_def)

text \<open>
  C4. The claim has \<open>Update\<close> overwrite domain, text and \<open>blocked\<close>. The statement sets
  \<open>domain\<close> and \<open>robots_txt\<close> only, and the reload scans no \<open>blocked\<close>: when the store
  runs both statements, the rows with the given id get the new domain and text, every
  row keeps its \<open>blocked\<close>, and the result is the reloaded rule with \<open>Blocked = false\<close>,
  or the not-found error when no row has the id.
\<close>

theorem Update_keeps_blocked:
  assumes "db_fault db (UpdateRule (Domain' rule) (RobotsTxt rule) (Itoa (ID rule))) = None"
    and "db_fault db (SelectById (Itoa (ID rule))) = None"
    and "int4in db (Itoa (ID rule)) = Inr i"
  shows "rows (fst (Update db rule)) =
           map (\<lambda>r. if row_id r = i
                     then r\<lparr>row_domain := Domain' rule, row_robots_txt := RobotsTxt rule\<rparr> else r)
             (rows db)
     \<and> map row_blocked (rows (fst (Update db rule))) = map row_blocked (rows db)
     \<and> snd (Update db rule) =
         (case find (\<lambda>r. row_id r = i) (rows db) of
            None \<Rightarrow> Inl (''rule with id '' @ sq (Itoa (ID rule)) @ '' not found'')
          | Some r \<Rightarrow>
              Inr \<lparr>ID = i, Domain' = Domain' rule, Blocked = False, RobotsTxt = RobotsTxt rule,
                   CreatedAt = row_created_at r, UpdatedAt = row_updated_at r\<rparr>)"
proof -
  let ?f = "\<lambda>r. if row_id r = i
                 then r\<lparr>row_domain := Domain' rule, row_robots_txt := RobotsTxt rule\<rparr> else r"
  let ?s = "UpdateRule (Domain' rule) (RobotsTxt rule) (Itoa (ID rule))"
  let ?db = "(sent_to db ?s)\<lparr>rows := map ?f (rows db)\<rparr>"
  have u: "Update db rule = GetById ?db (Itoa (ID rule))"
    using assms by (simp add: Update_def Let_def)
  have f: "find (\<lambda>r. row_id r = i) (map ?f (rows db)) = map_option ?f (find (\<lambda>r. row_id r = i) (rows db))"
    by (rule find_map_row_id) simp
  have r: "rows (fst (GetById ?db (Itoa (ID rule)))) = map ?f (rows db)"
    by (simp add: GetById_def sent_to_def split: option.split sum.split)
  have b: "map row_blocked (map ?f (rows db)) = map row_blocked (rows db)"
    by (induction "rows db") simp_all
  have g: "snd (GetById ?db (Itoa (ID rule))) =
      (case find (\<lambda>r. row_id r = i) (rows db) of
         None \<Rightarrow> Inl (''rule with id '' @ sq (Itoa (ID rule)) @ '' not found'')
       | Some r \<Rightarrow>
           Inr \<lparr>ID = i, Domain' = Domain' rule, Blocked = False, RobotsTxt = RobotsTxt rule,
                CreatedAt = row_created_at r, UpdatedAt = row_updated_at r\<rparr>)"
  proof (cases "find (\<lambda>r. row_id r = i) (rows db)")
    case None
    with assms(2,3) show ?thesis by (simp add: GetById_def sent_to_def f)
  next
    case (Some r)
    then have "row_id r = i" by (rule find_SomeD)
    with Some assms(2,3) show ?thesis by (simp add: GetById_def sent_to_def f Scan_def)
  qed
  show ?thesis
    using u r b g by simp
qed

theorem Update_keeps_blocked_witness:
  "Update (store [rule_row 1 ''example.com'' allow_test False])
      \<lparr>ID = 1, Domain' = ''example.com'', Blocked = True, RobotsTxt = disallow_test,
       CreatedAt = 0, UpdatedAt = 0\<rparr> =
     (\<lparr>rows = [rule_row 1 ''example.com'' disallow_test False], db_fault = (\<lambda>s. None),
       int4in = plain_int4in,
       db_log = [UpdateRule ''example.com'' disallow_test ''1'', SelectById ''1'']\<rparr>,
      Inr \<lparr>ID = 1, Domain' = ''example.com'', Blocked = False, RobotsTxt = disallow_test,
           CreatedAt = 0, UpdatedAt = 0\<rparr>)"
proof -
  let ?db = "store [rule_row 1 ''example.com'' allow_test False]"
  let ?rule = "\<lparr>ID = 1, Domain' = ''example.com'', Blocked = True, RobotsTxt = disallow_test,
       CreatedAt = 0, UpdatedAt = 0\<rparr>"
  have 1: "db_fault ?db (UpdateRule (Domain' ?rule) (RobotsTxt ?rule) (Itoa (ID ?rule))) = None"
    by (simp add: store_def)
  have 2: "db_fault ?db (SelectById (Itoa (ID ?rule))) = None"
    by (simp add: store_def)
  have 3: "int4in ?db (Itoa (ID ?rule)) = Inr 1"
    by (simp add: store_def Itoa_1 plain_int4in_1)
  have l: "db_log (fst (Update ?db ?rule)) = [UpdateRule ''example.com'' disallow_test ''1'', SelectById ''1'']"
    and k: "db_fault (fst (Update ?db ?rule)) = (\<lambda>s. None)" "int4in (fst (Update ?db ?rule)) = plain_int4in"
    by (simp_all add: Update_def GetById_def store_def sent_to_def Itoa_1 plain_int4in_1 rule_row_def Let_def)
  from Update_keeps_blocked [OF 1 2 3] l k
  show ?thesis
    by (cases "Update ?db ?rule"; cases "fst (Update ?db ?rule)") (simp add: store_def rule_row_def)
qed

lemma plain_int4in_abc:
  "plain_int4in ''abc'' = Inl (''pq: invalid input syntax for type integer: '' @ quote ''abc'')"
  by (simp add: plain_int4in_def is_digit_def)

text \<open>
  C9, as stated, fails: the claim has \<open>Delete\<close> succeed for every id. The id is the text
  of the query parameter, passed on as it came; the store compares it with the integer
  column \<open>id\<close> and raises an error when the text is no integer. For the id \<open>abc\<close>
  \<open>Delete\<close> returns that error, and the handler answers HTTP 500.
\<close>

theorem Delete_not_integer_counterexample:
  "snd (Delete (store [rule_row 1 ''example.com'' allow_test False]) ''abc'') =
     Some (''pq: invalid input syntax for type integer: '' @ [CHR 0x22] @ ''abc'' @ [CHR 0x22])
   \<and> snd (DeleteCustomRule
            (handler [rule_row 1 ''example.com'' allow_test False] (Inl ''connection refused''))
            (id_request ''abc'')) =
       (500, ErrorJSON (''failed to delete custom rule. pq: invalid input syntax for type integer: ''
                          @ [CHR 0x22] @ ''abc'' @ [CHR 0x22]))"
  by (simp add: Delete_def DeleteCustomRule_def Query_def id_request_def handler_def store_def
      plain_int4in_abc quote_def sent_to_def)

text \<open>
  C9, amended. The store raises no error of its own. For an id that it reads as an
  integer, \<open>Delete\<close> returns no error whether or not a row has that id, and so does a
  second \<open>Delete\<close> of the same id, which finds the rows as the first left them; the
  handler answers both with HTTP 200 and the message that the rule is deleted, so a
  missing id is not reported as an error. For an id that it does not read as an
  integer, \<open>Delete\<close> returns the store's error, the rows are as before, and the handler
  answers HTTP 500.
\<close>

theorem Delete_idempotent:
  assumes "db_fault (ruleRepo h) (DeleteRule ruleId) = None"
    and "Query c ''id'' = ruleId" and "ruleId \<noteq> []"
  shows "(\<forall>i. int4in (ruleRepo h) ruleId = Inr i \<longrightarrow>
           snd (Delete (ruleRepo h) ruleId) = None
           \<and> snd (Delete (fst (Delete (ruleRepo h) ruleId)) ruleId) = None
           \<and> rows (fst (Delete (ruleRepo h) ruleId)) = filter (\<lambda>r. row_id r \<noteq> i) (rows (ruleRepo h))
           \<and> rows (fst (Delete (fst (Delete (ruleRepo h) ruleId)) ruleId)) =
               rows (fst (Delete (ruleRepo h) ruleId))
           \<and> snd (DeleteCustomRule h c) =
               (200, MessageJSON (''rule with id '' @ sq ruleId @ '' is deleted''))
           \<and> snd (DeleteCustomRule (fst (DeleteCustomRule h c)) c) =
               (200, MessageJSON (''rule with id '' @ sq ruleId @ '' is deleted'')))
     \<and> (\<forall>err. int4in (ruleRepo h) ruleId = Inl err \<longrightarrow>
           snd (Delete (ruleRepo h) ruleId) = Some err
           \<and> rows (fst (Delete (ruleRepo h) ruleId)) = rows (ruleRepo h)
           \<and> snd (DeleteCustomRule h c) =
               (500, ErrorJSON (''failed to delete custom rule. '' @ err)))"
  using assms
  by (simp add: Delete_def DeleteCustomRule_def sent_to_def Let_def)

theorem Delete_idempotent_witness:
  "snd (DeleteCustomRule (handler [rule_row 1 ''example.com'' allow_test False] (Inl ''connection refused''))
          (id_request ''7'')) =
     (200, MessageJSON (''rule with id '' @ [CHR 0x27] @ ''7'' @ [CHR 0x27] @ '' is deleted''))
   \<and> snd (DeleteCustomRule
            (fst (DeleteCustomRule (handler [rule_row 1 ''example.com'' allow_test False] (Inl ''connection refused''))
                    (id_request ''7'')))
            (id_request ''7'')) =
       (200, MessageJSON (''rule with id '' @ [CHR 0x27] @ ''7'' @ [CHR 0x27] @ '' is deleted''))
   \<and> rows (fst (Delete (store [rule_row 1 ''example.com'' allow_test False]) ''7'')) =
       [rule_row 1 ''example.com'' allow_test False]
   \<and> snd (DeleteCustomRule (handler [rule_row 1 ''example.com'' allow_test False] (Inl ''connection refused''))
            (id_request ''1'')) =
       (200, MessageJSON (''rule with id '' @ [CHR 0x27] @ ''1'' @ [CHR 0x27] @ '' is deleted''))
   \<and> rows (fst (Delete (store [rule_row 1 ''example.com'' allow_test False]) ''1'')) = []
   \<and> rows (fst (Delete (fst (Delete (store [rule_row 1 ''example.com'' allow_test False]) ''1'')) ''1'')) = []
   \<and> snd (DeleteCustomRule (handler [rule_row 1 ''example.com'' allow_test False] (Inl ''connection refused''))
            (id_request ''abc'')) =
       (500, ErrorJSON (''failed to delete custom rule. pq: invalid input syntax for type integer: ''
                          @ [CHR 0x22] @ ''abc'' @ [CHR 0x22]))"
proof -
  let ?h = "handler [rule_row 1 ''example.com'' allow_test False] (Inl ''connection refused'')"
  have f: "db_fault (ruleRepo ?h) (DeleteRule ruleId) = None" for ruleId
    by (simp add: handler_def store_def)
  have q: "Query (id_request ruleId) ''id'' = ruleId" for ruleId
    by (simp add: Query_def id_request_def)
  have 7: "int4in (ruleRepo ?h) ''7'' = Inr 7" by (simp add: handler_def store_def plain_int4in_7)
  have 1: "int4in (ruleRepo ?h) ''1'' = Inr 1" by (simp add: handler_def store_def plain_int4in_1)
  have a: "int4in (ruleRepo ?h) ''abc'' =
      Inl (''pq: invalid input syntax for type integer: '' @ quote ''abc'')"
    by (simp add: handler_def store_def plain_int4in_abc)
  have n: "''7'' \<noteq> []" "''1'' \<noteq> []" "''abc'' \<noteq> []" by simp_all
  from Delete_idempotent [OF f q n(1)] Delete_idempotent [OF f q n(2)] Delete_idempotent [OF f q n(3)]
    7 1 a
  show ?thesis
    by (simp add: sq_def quote_def handler_def store_def rule_row_def)
qed

end
